theory Spec2Isabelle
  imports Main
begin

section \<open>Time and dates\<close>

text \<open>
  A Python \<open>date\<close> is modelled by its proleptic Gregorian ordinal (\<open>date.toordinal()\<close>),
  so that \<open>(a - b).days\<close> is integer subtraction. A \<open>datetime\<close> is the number of
  microseconds since 0001-01-01T00:00:00 (ordinal day 1), naive or UTC as in the source.
  Python restricts both to the years 1..9999: the arithmetic of \<open>get_local_date\<close>
  below raises where the source does. The readings of the clock are taken to lie in that
  range, with the day after them.
\<close>

type_synonym date = int
type_synonym datetime = int

definition US_PER_MINUTE :: int where
  "US_PER_MINUTE = 60000000"

definition US_PER_DAY :: int where
  "US_PER_DAY = 86400000000"

text \<open>\<open>datetime.date()\<close>: the calendar day an instant falls in.\<close>

definition date_of :: "datetime \<Rightarrow> date" where
  "date_of dt = dt div US_PER_DAY + 1"

text \<open>\<open>datetime(dt.year, dt.month, dt.day, 0, 0, 0)\<close>: midnight of the instant's day.\<close>

definition start_of_day :: "datetime \<Rightarrow> datetime" where
  "start_of_day dt = (dt div US_PER_DAY) * US_PER_DAY"

section \<open>Errors and query results\<close>

text \<open>
  The exceptions the modelled code can raise: the 404 of a missing task, SQLAlchemy's
  \<open>MultipleResultsFound\<close> (raised by \<open>scalar_one_or_none\<close> on two or more rows),
  and Python's \<open>TypeError\<close> and \<open>OverflowError\<close> (raised by the date arithmetic of
  \<open>get_local_date\<close>).
\<close>

datatype error = NotFound | MultipleResultsFound | TypeError | OverflowError

fun scalar_one_or_none :: "'a list \<Rightarrow> error + 'a option" where
  "scalar_one_or_none [] = Inr None"
| "scalar_one_or_none [x] = Inr (Some x)"
| "scalar_one_or_none (x # y # zs) = Inl MultipleResultsFound"

section \<open>The local date of a request\<close>

text \<open>\<open>datetime.max\<close>, the last microsecond of the year 9999.\<close>

definition MAX_DATETIME :: datetime where
  "MAX_DATETIME = 3652059 * US_PER_DAY - 1"

text \<open>
  \<open>timedelta(minutes=m)\<close>, in microseconds: \<open>None\<close> is not a number, and the days of
  a \<open>timedelta\<close> must not exceed 999999999 in magnitude.
\<close>

definition timedelta_minutes :: "int option \<Rightarrow> error + int" where
  "timedelta_minutes minutes =
     (case minutes of
        None \<Rightarrow> Inl TypeError
      | Some m \<Rightarrow>
          if m div 1440 < - 999999999 \<or> 999999999 < m div 1440 then Inl OverflowError
          else Inr (m * US_PER_MINUTE))"

text \<open>\<open>datetime - timedelta\<close>: the result must be a \<open>datetime\<close> of the years 1..9999.\<close>

definition datetime_minus :: "datetime \<Rightarrow> int \<Rightarrow> error + datetime" where
  "datetime_minus dt delta =
     (if dt - delta < 0 \<or> MAX_DATETIME < dt - delta then Inl OverflowError
      else Inr (dt - delta))"

text \<open>
  \<open>get_local_date\<close> of \<^verbatim>\<open>app/api/tasks.py\<close>; the reading of the clock
  (\<open>datetime.now(timezone.utc)\<close>) is the first argument. The handler passes the
  offset of the request as it is, which may be \<open>None\<close>.
\<close>

definition get_local_date :: "datetime \<Rightarrow> int option \<Rightarrow> error + date" where
  "get_local_date utc_now timezone_offset_minutes =
     (case timedelta_minutes timezone_offset_minutes of
        Inl err \<Rightarrow> Inl err
      | Inr delta \<Rightarrow>
          (case datetime_minus utc_now delta of
             Inl err \<Rightarrow> Inl err
           | Inr local_time \<Rightarrow> Inr (date_of local_time)))"

section \<open>Data model\<close>

text \<open>
  The JSON payload of a notification is a dictionary from keys to JSON values. The values
  modelled are null, booleans, integers and strings; floating-point numbers and nested
  containers are left out. Strings are byte strings (UTF-8).
\<close>

datatype jval = JNull | JBool bool | JInt int | JStr string

type_synonym payload = "(string \<times> jval) list"

text \<open>\<^verbatim>\<open>app/models/task_card.py\<close>\<close>

record task_card =
  task_card_id :: string
  title :: string
  content :: string
  list_id :: "string option"
  is_habit :: bool
  reminder_time :: "datetime option"
  current_streak :: int
  longest_streak :: int
  last_checkin_date :: "date option"
  created_at :: datetime
  updated_at :: datetime
  is_deleted :: bool

text \<open>\<^verbatim>\<open>app/models/checkin_record.py\<close>\<close>

record checkin_record =
  record_id :: string
  task_id :: string
  checkin_date :: date
  checkin_time :: datetime

text \<open>\<^verbatim>\<open>app/models/notification.py\<close>\<close>

record notification =
  notification_id :: string
  ntype :: string
  ntitle :: string
  message :: string
  data :: "payload option"
  is_read :: bool
  notification_created_at :: datetime
  user_id :: string

text \<open>
  The state the operations run on: the three tables, each a list of rows in insertion
  order, and the number of identifiers drawn from \<open>uuid.uuid4()\<close> so far.
\<close>

record state =
  task_cards :: "task_card list"
  checkin_records :: "checkin_record list"
  notifications :: "notification list"
  uuid_count :: nat

text \<open>
  What an operation reads from its environment: the clock in UTC
  (\<open>datetime.now(timezone.utc)\<close>, \<open>datetime.utcnow()\<close>), the server's local calendar
  day (\<open>date.today()\<close>) and the sequence of identifiers \<open>uuid.uuid4()\<close> returns.
  One operation reads one instant: the time that passes between two readings of the clock
  inside a request is not modelled. Identifiers are taken to be fresh, so the primary key
  of a table never rejects a row the application inserts.
\<close>

record env =
  utc_now :: datetime
  date_today :: date
  uuid4 :: "nat \<Rightarrow> string"

section \<open>Python and SQL primitives\<close>

text \<open>\<open>dict.get\<close> on an optional dictionary that is known to be truthy.\<close>

definition dict_get :: "payload \<Rightarrow> string \<Rightarrow> jval option" where
  "dict_get d k = map_of d k"

text \<open>Truthiness of a value \<open>dict.get\<close> returns (\<open>None\<close> for a missing key).\<close>

fun truthy :: "jval option \<Rightarrow> bool" where
  "truthy None = False"
| "truthy (Some JNull) = False"
| "truthy (Some (JBool b)) = b"
| "truthy (Some (JInt i)) = (i \<noteq> 0)"
| "truthy (Some (JStr s)) = (s \<noteq> [])"

text \<open>Python's \<open>==\<close> between a value \<open>dict.get\<close> returns and a \<open>str\<close>.\<close>

fun py_eq_str :: "jval option \<Rightarrow> string \<Rightarrow> bool" where
  "py_eq_str (Some (JStr s)) t = (s = t)"
| "py_eq_str _ t = False"

text \<open>
  SQLite's \<open>json_extract(data, '$.key')\<close>: SQL NULL (here \<open>None\<close>) for a column without
  a dictionary, a missing key or a JSON null; booleans come back as the integers 1 and 0.
\<close>

datatype sql_value = SqlInteger int | SqlText string

fun json_extract :: "payload option \<Rightarrow> string \<Rightarrow> sql_value option" where
  "json_extract None k = None"
| "json_extract (Some d) k =
     (case map_of d k of
        None \<Rightarrow> None
      | Some JNull \<Rightarrow> None
      | Some (JBool b) \<Rightarrow> Some (SqlInteger (if b then 1 else 0))
      | Some (JInt i) \<Rightarrow> Some (SqlInteger i)
      | Some (JStr s) \<Rightarrow> Some (SqlText s))"

text \<open>
  SQL \<open>=\<close> in a WHERE clause, between an extracted value and a bound parameter: a NULL
  operand never matches, and without column affinity an integer never equals a text.
\<close>

fun sql_eq :: "sql_value option \<Rightarrow> sql_value \<Rightarrow> bool" where
  "sql_eq None p = False"
| "sql_eq (Some v) p = (v = p)"

text \<open>
  SQL \<open>!=\<close> in a WHERE clause, between a nullable date column and a bound date: a NULL
  column gives NULL, which does not select the row.
\<close>

fun sql_ne :: "date option \<Rightarrow> date \<Rightarrow> bool" where
  "sql_ne None p = False"
| "sql_ne (Some v) p = (v \<noteq> p)"

text \<open>\<open>str(n)\<close> of a Python \<open>int\<close>, as an f-string formats it.\<close>

definition digit_char :: "nat \<Rightarrow> char" where
  "digit_char n = ''0123456789'' ! n"

fun str_nat :: "nat \<Rightarrow> string" where
  "str_nat n = (if n < 10 then [digit_char n] else str_nat (n div 10) @ [digit_char (n mod 10)])"

declare str_nat.simps [simp del]

definition str_int :: "int \<Rightarrow> string" where
  "str_int i = (if i < 0 then CHR ''-'' # str_nat (nat (- i)) else str_nat (nat i))"

text \<open>Zero padding to a minimal width, as \<open>%04d\<close> and \<open>%02d\<close> do for a non-negative number.\<close>

definition zero_pad :: "nat \<Rightarrow> nat \<Rightarrow> string" where
  "zero_pad w n = (let ds = str_nat n in replicate (w - length ds) CHR ''0'' @ ds)"

text \<open>
  \<open>date.isoformat()\<close>: the ordinal is split into year, month and day as CPython's
  \<open>_ord2ymd\<close> does, and printed as \<open>YYYY-MM-DD\<close>. Meaningful for the ordinals of the
  years 1..9999.
\<close>

definition days_before_month :: "nat list" where
  "days_before_month = [0, 0, 31, 59, 90, 120, 151, 181, 212, 243, 273, 304, 334]"

definition days_in_month :: "nat list" where
  "days_in_month = [0, 31, 28, 31, 30, 31, 30, 31, 31, 30, 31, 30, 31]"

definition ord2ymd :: "date \<Rightarrow> nat \<times> nat \<times> nat" where
  "ord2ymd ordinal =
     (let n0 = nat (ordinal - 1);
          n400 = n0 div 146097; n1 = n0 mod 146097;
          n100 = n1 div 36524; n2 = n1 mod 36524;
          n4 = n2 div 1461; n3 = n2 mod 1461;
          n1y = n3 div 365; n = n3 mod 365;
          year = n400 * 400 + 1 + n100 * 100 + n4 * 4 + n1y
      in if n1y = 4 \<or> n100 = 4 then (year - 1, 12, 31)
         else
           (let leapyear = (n1y = 3 \<and> (n4 \<noteq> 24 \<or> n100 = 3));
                month = (n + 50) div 32;
                preceding = days_before_month ! month + (if month > 2 \<and> leapyear then 1 else 0)
            in if preceding > n
               then (let month' = month - 1;
                         preceding' = preceding - (days_in_month ! month'
                                                   + (if month' = 2 \<and> leapyear then 1 else 0))
                     in (year, month', n - preceding' + 1))
               else (year, month, n - preceding + 1)))"

definition isoformat :: "date \<Rightarrow> string" where
  "isoformat d =
     (case ord2ymd d of (y, m, dd) \<Rightarrow>
        zero_pad 4 y @ ''-'' @ zero_pad 2 m @ ''-'' @ zero_pad 2 dd)"

section \<open>Streak engine\<close>

text \<open>\<open>calculate_streak\<close> of \<^verbatim>\<open>app/api/tasks.py\<close>, branch by branch.\<close>

definition calculate_streak :: "date option \<Rightarrow> int \<Rightarrow> date \<Rightarrow> int" where
  "calculate_streak last_checkin streak today =
     (case last_checkin of
        None \<Rightarrow> 1
      | Some last_date \<Rightarrow>
          if last_date = today then streak
          else (let days_since_last = today - last_date
                in if days_since_last = 1 then streak + 1 else 1))"

section \<open>Notification service\<close>

text \<open>
  \<^verbatim>\<open>app/services/notification_service.py\<close>. The literal texts of titles and messages
  are given by their UTF-8 bytes.
\<close>

definition ACHIEVEMENT_MILESTONES :: "int list" where
  "ACHIEVEMENT_MILESTONES = [7, 14, 30, 60, 100]"

definition reminder_title_prefix :: string where
  "reminder_title_prefix =
     [CHR 0xE4, CHR 0xB9, CHR 0xA0, CHR 0xE6, CHR 0x83, CHR 0xAF, CHR 0xE6, CHR 0x8F,
      CHR 0x90, CHR 0xE9, CHR 0x86, CHR 0x92, CHR 0x3A, CHR 0x20]"

definition reminder_message_prefix :: string where
  "reminder_message_prefix =
     [CHR 0xE5, CHR 0x88, CHR 0xAB, CHR 0xE5, CHR 0xBF, CHR 0x98, CHR 0xE4, CHR 0xBA,
      CHR 0x86, CHR 0xE5, CHR 0xAE, CHR 0x8C, CHR 0xE6, CHR 0x88, CHR 0x90, CHR 0xE4,
      CHR 0xBB, CHR 0x8A, CHR 0xE5, CHR 0xA4, CHR 0xA9, CHR 0xE7, CHR 0x9A, CHR 0x84,
      CHR 0xE3, CHR 0x80, CHR 0x8C]"

definition reminder_message_suffix :: string where
  "reminder_message_suffix =
     [CHR 0xE3, CHR 0x80, CHR 0x8D, CHR 0xE4, CHR 0xB9, CHR 0xA0, CHR 0xE6, CHR 0x83,
      CHR 0xAF, CHR 0xE6, CHR 0x89, CHR 0x93, CHR 0xE5, CHR 0x8D, CHR 0xA1, CHR 0xEF,
      CHR 0xBC, CHR 0x81]"

definition at_risk_title :: string where
  "at_risk_title =
     [CHR 0xE2, CHR 0x9A, CHR 0xA0, CHR 0xEF, CHR 0xB8, CHR 0x8F, CHR 0x20, CHR 0xE8,
      CHR 0xBF, CHR 0x9E, CHR 0xE7, CHR 0xBB, CHR 0xAD, CHR 0xE6, CHR 0x89, CHR 0x93,
      CHR 0xE5, CHR 0x8D, CHR 0xA1, CHR 0xE5, CHR 0x8D, CHR 0xB3, CHR 0xE5, CHR 0xB0,
      CHR 0x86, CHR 0xE4, CHR 0xB8, CHR 0xAD, CHR 0xE6, CHR 0x96, CHR 0xAD]"

definition quote_open :: string where
  "quote_open =
     [CHR 0xE3, CHR 0x80, CHR 0x8C]"

definition streak_message_middle :: string where
  "streak_message_middle =
     [CHR 0xE3, CHR 0x80, CHR 0x8D, CHR 0xE5, CHR 0xB7, CHR 0xB2, CHR 0xE8, CHR 0xBF,
      CHR 0x9E, CHR 0xE7, CHR 0xBB, CHR 0xAD, CHR 0xE6, CHR 0x89, CHR 0x93, CHR 0xE5,
      CHR 0x8D, CHR 0xA1, CHR 0x20]"

definition at_risk_message_suffix :: string where
  "at_risk_message_suffix =
     [CHR 0x20, CHR 0xE5, CHR 0xA4, CHR 0xA9, CHR 0xEF, CHR 0xBC, CHR 0x8C, CHR 0xE4,
      CHR 0xBB, CHR 0x8A, CHR 0xE5, CHR 0xA4, CHR 0xA9, CHR 0xE8, CHR 0xBF, CHR 0x98,
      CHR 0xE6, CHR 0xB2, CHR 0xA1, CHR 0xE6, CHR 0x89, CHR 0x93, CHR 0xE5, CHR 0x8D,
      CHR 0xA1, CHR 0xE5, CHR 0x93, CHR 0xA6, CHR 0xEF, CHR 0xBC, CHR 0x81]"

definition achievement_title :: string where
  "achievement_title =
     [CHR 0xF0, CHR 0x9F, CHR 0x8E, CHR 0x89, CHR 0x20, CHR 0xE6, CHR 0x88, CHR 0x90,
      CHR 0xE5, CHR 0xB0, CHR 0xB1, CHR 0xE8, CHR 0xA7, CHR 0xA3, CHR 0xE9, CHR 0x94,
      CHR 0x81, CHR 0xEF, CHR 0xBC, CHR 0x81]"

definition achievement_message_prefix :: string where
  "achievement_message_prefix =
     [CHR 0xE6, CHR 0x81, CHR 0xAD, CHR 0xE5, CHR 0x96, CHR 0x9C, CHR 0xEF, CHR 0xBC,
      CHR 0x81, CHR 0xE3, CHR 0x80, CHR 0x8C]"

definition achievement_message_suffix :: string where
  "achievement_message_suffix =
     [CHR 0x20, CHR 0xE5, CHR 0xA4, CHR 0xA9, CHR 0xEF, CHR 0xBC, CHR 0x81]"

definition daily_complete_title :: string where
  "daily_complete_title =
     [CHR 0xF0, CHR 0x9F, CHR 0x8C, CHR 0x9F, CHR 0x20, CHR 0xE4, CHR 0xBB, CHR 0x8A,
      CHR 0xE6, CHR 0x97, CHR 0xA5, CHR 0xE4, CHR 0xB9, CHR 0xA0, CHR 0xE6, CHR 0x83,
      CHR 0xAF, CHR 0xE5, CHR 0x85, CHR 0xA8, CHR 0xE9, CHR 0x83, CHR 0xA8, CHR 0xE5,
      CHR 0xAE, CHR 0x8C, CHR 0xE6, CHR 0x88, CHR 0x90, CHR 0xEF, CHR 0xBC, CHR 0x81]"

definition daily_complete_message_prefix :: string where
  "daily_complete_message_prefix =
     [CHR 0xE5, CHR 0xA4, CHR 0xAA, CHR 0xE6, CHR 0xA3, CHR 0x92, CHR 0xE4, CHR 0xBA,
      CHR 0x86, CHR 0xEF, CHR 0xBC, CHR 0x81, CHR 0xE4, CHR 0xBD, CHR 0xA0, CHR 0xE5,
      CHR 0xB7, CHR 0xB2, CHR 0xE5, CHR 0xAE, CHR 0x8C, CHR 0xE6, CHR 0x88, CHR 0x90,
      CHR 0xE4, CHR 0xBB, CHR 0x8A, CHR 0xE5, CHR 0xA4, CHR 0xA9, CHR 0xE7, CHR 0x9A,
      CHR 0x84, CHR 0xE6, CHR 0x89, CHR 0x80, CHR 0xE6, CHR 0x9C, CHR 0x89, CHR 0x20]"

definition daily_complete_message_suffix :: string where
  "daily_complete_message_suffix =
     [CHR 0x20, CHR 0xE4, CHR 0xB8, CHR 0xAA, CHR 0xE4, CHR 0xB9, CHR 0xA0, CHR 0xE6,
      CHR 0x83, CHR 0xAF, CHR 0xEF, CHR 0xBC, CHR 0x81]"


text \<open>
  \<open>_create_notification\<close>: builds the row with a new identifier and the current UTC
  instant, adds it and commits. Returns the row and the new state.
\<close>

definition create_notification ::
  "env \<Rightarrow> string \<Rightarrow> string \<Rightarrow> string \<Rightarrow> payload option \<Rightarrow> state \<Rightarrow> notification \<times> state" where
  "create_notification e notification_type ttl msg dat s =
     (let n = \<lparr> notification_id = uuid4 e (uuid_count s),
                 ntype = notification_type,
                 ntitle = ttl,
                 message = msg,
                 data = dat,
                 is_read = False,
                 notification_created_at = utc_now e,
                 user_id = ''default'' \<rparr>
      in (n, s\<lparr> notifications := notifications s @ [n], uuid_count := Suc (uuid_count s) \<rparr>))"

text \<open>
  The rows of one type created in the UTC day of the current instant: the query shared by
  \<open>_check_existing_reminder\<close>, \<open>_check_existing_at_risk\<close> and
  \<open>_check_existing_daily_complete\<close>.
\<close>

definition notifications_of_utc_day :: "env \<Rightarrow> string \<Rightarrow> state \<Rightarrow> notification list" where
  "notifications_of_utc_day e notification_type s =
     (let start_of_day_utc = start_of_day (utc_now e);
          end_of_day_utc = start_of_day_utc + US_PER_DAY
      in filter (\<lambda>n. ntype n = notification_type
                     \<and> start_of_day_utc \<le> notification_created_at n
                     \<and> notification_created_at n < end_of_day_utc)
           (notifications s))"

text \<open>\<open>n.data and n.data.get('habit_id') == habit_id\<close>\<close>

definition data_names_habit :: "notification \<Rightarrow> string \<Rightarrow> bool" where
  "data_names_habit n habit_id =
     (case data n of
        None \<Rightarrow> False
      | Some d \<Rightarrow> d \<noteq> [] \<and> py_eq_str (dict_get d ''habit_id'') habit_id)"

text \<open>\<open>n.data.get('at_risk')\<close>, for a row whose \<open>data\<close> is truthy.\<close>

definition data_at_risk :: "notification \<Rightarrow> bool" where
  "data_at_risk n = (case data n of None \<Rightarrow> False | Some d \<Rightarrow> truthy (dict_get d ''at_risk''))"

text \<open>The argument \<open>today\<close> of the three checks below is not used by the source either.\<close>

definition check_existing_reminder :: "env \<Rightarrow> string \<Rightarrow> date \<Rightarrow> state \<Rightarrow> bool" where
  "check_existing_reminder e habit_id today s =
     list_ex (\<lambda>n. data_names_habit n habit_id \<and> \<not> data_at_risk n)
       (notifications_of_utc_day e ''habit_reminder'' s)"

definition check_existing_at_risk :: "env \<Rightarrow> string \<Rightarrow> date \<Rightarrow> state \<Rightarrow> bool" where
  "check_existing_at_risk e habit_id today s =
     list_ex (\<lambda>n. data_names_habit n habit_id \<and> data_at_risk n)
       (notifications_of_utc_day e ''habit_reminder'' s)"

text \<open>
  \<open>_check_existing_achievement\<close>: the query has \<open>limit(1)\<close>, so \<open>scalar_one_or_none\<close>
  sees at most one row and cannot raise.
\<close>

definition check_existing_achievement :: "string \<Rightarrow> int \<Rightarrow> state \<Rightarrow> bool" where
  "check_existing_achievement habit_id milestone s =
     (case take 1 (filter (\<lambda>n. ntype n = ''achievement''
                              \<and> sql_eq (json_extract (data n) ''habit_id'') (SqlText habit_id)
                              \<and> sql_eq (json_extract (data n) ''milestone'') (SqlInteger milestone))
                     (notifications s)) of
        [] \<Rightarrow> False
      | n # _ \<Rightarrow> True)"

text \<open>
  \<open>_check_existing_daily_complete\<close>: no limit on the query, so two rows in the window
  make \<open>scalar_one_or_none\<close> raise.
\<close>

definition check_existing_daily_complete :: "env \<Rightarrow> date \<Rightarrow> state \<Rightarrow> error + bool" where
  "check_existing_daily_complete e today s =
     (case scalar_one_or_none (notifications_of_utc_day e ''daily_complete'' s) of
        Inl err \<Rightarrow> Inl err
      | Inr notification \<Rightarrow> Inr (notification \<noteq> None))"

text \<open>The query for the active habits: \<open>is_habit == True\<close> and \<open>is_deleted == False\<close>.\<close>

definition active_habits :: "state \<Rightarrow> task_card list" where
  "active_habits s = filter (\<lambda>t. is_habit t \<and> \<not> is_deleted t) (task_cards s)"

text \<open>
  \<open>generate_habit_reminders\<close>: the call of \<open>_create_notification\<close> with its arguments,
  the loop over the habits, then the function.
\<close>

definition create_habit_reminder :: "env \<Rightarrow> task_card \<Rightarrow> state \<Rightarrow> notification \<times> state" where
  "create_habit_reminder e habit s =
     create_notification e ''habit_reminder''
       (reminder_title_prefix @ title habit)
       (reminder_message_prefix @ title habit @ reminder_message_suffix)
       (Some [(''habit_id'', JStr (task_card_id habit)),
              (''habit_title'', JStr (title habit)),
              (''current_streak'', JInt (current_streak habit))])
       s"

fun habit_reminders_loop ::
  "env \<Rightarrow> date \<Rightarrow> task_card list \<Rightarrow> notification list \<Rightarrow> state \<Rightarrow> notification list \<times> state" where
  "habit_reminders_loop e today [] created_notifications s = (created_notifications, s)"
| "habit_reminders_loop e today (habit # habits) created_notifications s =
     (if last_checkin_date habit = Some today
      then habit_reminders_loop e today habits created_notifications s
      else if current_streak habit > 0
      then habit_reminders_loop e today habits created_notifications s
      else if check_existing_reminder e (task_card_id habit) today s
      then habit_reminders_loop e today habits created_notifications s
      else (case create_habit_reminder e habit s of
              (n, s') \<Rightarrow> habit_reminders_loop e today habits (created_notifications @ [n]) s'))"

definition generate_habit_reminders :: "env \<Rightarrow> state \<Rightarrow> notification list \<times> state" where
  "generate_habit_reminders e s =
     (let today = date_today e;
          habits = active_habits s
      in habit_reminders_loop e today habits [] s)"

text \<open>
  \<open>generate_at_risk_notifications\<close>: here the streak and the last check-in date are
  tested in the SQL query.
\<close>

definition create_at_risk_notification ::
  "env \<Rightarrow> task_card \<Rightarrow> state \<Rightarrow> notification \<times> state" where
  "create_at_risk_notification e habit s =
     create_notification e ''habit_reminder''
       at_risk_title
       (quote_open @ title habit @ streak_message_middle
          @ str_int (current_streak habit) @ at_risk_message_suffix)
       (Some [(''habit_id'', JStr (task_card_id habit)),
              (''habit_title'', JStr (title habit)),
              (''current_streak'', JInt (current_streak habit)),
              (''at_risk'', JBool True)])
       s"

fun at_risk_loop ::
  "env \<Rightarrow> date \<Rightarrow> task_card list \<Rightarrow> notification list \<Rightarrow> state \<Rightarrow> notification list \<times> state" where
  "at_risk_loop e today [] created_notifications s = (created_notifications, s)"
| "at_risk_loop e today (habit # habits) created_notifications s =
     (if check_existing_at_risk e (task_card_id habit) today s
      then at_risk_loop e today habits created_notifications s
      else (case create_at_risk_notification e habit s of
              (n, s') \<Rightarrow> at_risk_loop e today habits (created_notifications @ [n]) s'))"

definition at_risk_habits :: "date \<Rightarrow> state \<Rightarrow> task_card list" where
  "at_risk_habits today s =
     filter (\<lambda>t. is_habit t \<and> \<not> is_deleted t \<and> current_streak t > 0
                  \<and> sql_ne (last_checkin_date t) today)
       (task_cards s)"

definition generate_at_risk_notifications :: "env \<Rightarrow> state \<Rightarrow> notification list \<times> state" where
  "generate_at_risk_notifications e s =
     (let today = date_today e;
          habits = at_risk_habits today s
      in at_risk_loop e today habits [] s)"

text \<open>\<open>check_streak_achievement\<close>, after the call of \<open>_create_notification\<close> it makes.\<close>

definition create_achievement ::
  "env \<Rightarrow> string \<Rightarrow> int \<Rightarrow> string \<Rightarrow> state \<Rightarrow> notification \<times> state" where
  "create_achievement e habit_id streak habit_title s =
     create_notification e ''achievement''
       achievement_title
       (achievement_message_prefix @ habit_title @ streak_message_middle
          @ str_int streak @ achievement_message_suffix)
       (Some [(''habit_id'', JStr habit_id),
              (''habit_title'', JStr habit_title),
              (''streak'', JInt streak),
              (''milestone'', JInt streak)])
       s"

definition check_streak_achievement ::
  "env \<Rightarrow> string \<Rightarrow> int \<Rightarrow> string \<Rightarrow> state \<Rightarrow> notification option \<times> state" where
  "check_streak_achievement e habit_id streak habit_title s =
     (if streak \<notin> set ACHIEVEMENT_MILESTONES then (None, s)
      else if check_existing_achievement habit_id streak s then (None, s)
      else (case create_achievement e habit_id streak habit_title s of
              (n, s') \<Rightarrow> (Some n, s')))"

text \<open>
  \<open>check_daily_complete\<close>, after the call of \<open>_create_notification\<close> it makes. An
  exception of the existence check leaves the state as it is.
\<close>

definition create_daily_complete ::
  "env \<Rightarrow> task_card list \<Rightarrow> date \<Rightarrow> state \<Rightarrow> notification \<times> state" where
  "create_daily_complete e habits today s =
     create_notification e ''daily_complete''
       daily_complete_title
       (daily_complete_message_prefix @ str_int (int (length habits))
          @ daily_complete_message_suffix)
       (Some [(''completed_count'', JInt (int (length habits))),
              (''date'', JStr (isoformat today))])
       s"

definition check_daily_complete :: "env \<Rightarrow> state \<Rightarrow> (error + notification option) \<times> state" where
  "check_daily_complete e s =
     (let today = date_today e;
          habits = active_habits s
      in if habits = [] then (Inr None, s)
         else if \<not> list_all (\<lambda>habit. last_checkin_date habit = Some today) habits
         then (Inr None, s)
         else (case check_existing_daily_complete e today s of
                 Inl err \<Rightarrow> (Inl err, s)
               | Inr True \<Rightarrow> (Inr None, s)
               | Inr False \<Rightarrow>
                   (case create_daily_complete e habits today s of
                      (n, s') \<Rightarrow> (Inr (Some n), s'))))"

section \<open>Check-in recorder\<close>

text \<open>
  \<open>checkin_task\<close> of \<^verbatim>\<open>app/api/tasks.py\<close>. The request body is optional, and so is
  its field \<open>timezone_offset\<close>: \<open>None\<close> is a request without a body,
  \<open>Some None\<close> a body whose offset is null. An exception of \<open>get_local_date\<close>
  ends the request before anything is written.
  The function returns what the endpoint answers, an exception or the task, and the
  committed state. The column \<open>updated_at\<close> takes the current instant when the row of the
  task is written, that is when one of its columns changes.
\<close>

definition find_task :: "string \<Rightarrow> state \<Rightarrow> error + task_card option" where
  "find_task tid s = scalar_one_or_none (filter (\<lambda>t. task_card_id t = tid) (task_cards s))"

definition find_checkin :: "string \<Rightarrow> date \<Rightarrow> state \<Rightarrow> error + checkin_record option" where
  "find_checkin tid today s =
     scalar_one_or_none (filter (\<lambda>r. task_id r = tid \<and> checkin_date r = today) (checkin_records s))"

text \<open>\<open>checkin_data.timezone_offset if checkin_data else 0\<close>\<close>

definition timezone_offset_of :: "int option option \<Rightarrow> int option" where
  "timezone_offset_of checkin_data = (case checkin_data of None \<Rightarrow> Some 0 | Some off \<Rightarrow> off)"

definition touch :: "env \<Rightarrow> task_card \<Rightarrow> task_card \<Rightarrow> task_card" where
  "touch e old new = (if new = old then old else new\<lparr> updated_at := utc_now e \<rparr>)"

text \<open>The assignments \<open>checkin_task\<close> makes to the task before it commits.\<close>

definition update_streak :: "env \<Rightarrow> date \<Rightarrow> task_card \<Rightarrow> task_card" where
  "update_streak e today task =
     (let new_streak = calculate_streak (last_checkin_date task) (current_streak task) today;
          task1 = task\<lparr> current_streak := new_streak, last_checkin_date := Some today \<rparr>;
          task2 = (if new_streak > longest_streak task1
                   then task1\<lparr> longest_streak := new_streak \<rparr> else task1)
      in touch e task task2)"

text \<open>
  What \<open>db.commit()\<close> writes in \<open>checkin_task\<close>: the new check-in record and the row of
  the task.
\<close>

definition commit_checkin :: "env \<Rightarrow> string \<Rightarrow> date \<Rightarrow> task_card \<Rightarrow> state \<Rightarrow> state" where
  "commit_checkin e tid today task' s =
     (let checkin = \<lparr> record_id = uuid4 e (uuid_count s),
                       task_id = tid,
                       checkin_date = today,
                       checkin_time = utc_now e \<rparr>
      in s\<lparr> task_cards := map (\<lambda>t. if task_card_id t = tid then task' else t) (task_cards s),
            checkin_records := checkin_records s @ [checkin],
            uuid_count := Suc (uuid_count s) \<rparr>)"

definition checkin_task ::
  "env \<Rightarrow> string \<Rightarrow> int option option \<Rightarrow> state \<Rightarrow> (error + task_card) \<times> state" where
  "checkin_task e tid checkin_data s =
     (case find_task tid s of
        Inl err \<Rightarrow> (Inl err, s)
      | Inr None \<Rightarrow> (Inl NotFound, s)
      | Inr (Some task) \<Rightarrow>
          (let timezone_offset = timezone_offset_of checkin_data
           in case get_local_date (utc_now e) timezone_offset of
                Inl err \<Rightarrow> (Inl err, s)
              | Inr today \<Rightarrow>
                  (case find_checkin tid today s of
                     Inl err \<Rightarrow> (Inl err, s)
                   | Inr (Some existing_checkin) \<Rightarrow> (Inr task, s)
                   | Inr None \<Rightarrow>
                       (let task' = update_streak e today task;
                            new_streak = current_streak task';
                            s1 = commit_checkin e tid today task' s
                        in case check_streak_achievement e tid new_streak (title task') s1 of
                             (achievement, s2) \<Rightarrow>
                               (case check_daily_complete e s2 of
                                  (Inl err, s3) \<Rightarrow> (Inl err, s3)
                                | (Inr daily, s3) \<Rightarrow> (Inr task', s3))))))"

text \<open>A sequence of check-in requests, each with its environment, run one after the other.\<close>

fun run_checkins :: "(env \<times> string \<times> int option option) list \<Rightarrow> state \<Rightarrow> state" where
  "run_checkins [] s = s"
| "run_checkins ((e, tid, checkin_data) # calls) s =
     run_checkins calls (snd (checkin_task e tid checkin_data s))"

section \<open>Constraints and invariants of the tables\<close>

text \<open>At most one check-in record for a task and a calendar date.\<close>

definition unique_checkins :: "state \<Rightarrow> bool" where
  "unique_checkins s = distinct (map (\<lambda>r. (task_id r, checkin_date r)) (checkin_records s))"

text \<open>
  The constraints \<^verbatim>\<open>app/models/checkin_record.py\<close> declares for the table
  \<open>checkin_records\<close>: the primary key \<open>id\<close> and the foreign key from \<open>task_id\<close> to the
  tasks (\<open>checkin_date\<close> is not nullable, which the type of the field says already).
  The class declares no constraint over \<open>task_id\<close> and \<open>checkin_date\<close> together.
\<close>

definition checkin_records_constraints :: "state \<Rightarrow> bool" where
  "checkin_records_constraints s =
     (distinct (map record_id (checkin_records s))
      \<and> set (map task_id (checkin_records s)) \<subseteq> set (map task_card_id (task_cards s)))"

section \<open>Notions used in the statements about notifications\<close>

text \<open>
  An achievement notification whose payload matches a habit and a milestone, in the words
  of the specification: the type is \<open>achievement\<close>, and the payload holds the habit's
  identifier under \<open>habit_id\<close> and the milestone under \<open>milestone\<close>.
\<close>

definition achievement_recorded :: "notification \<Rightarrow> string \<Rightarrow> int \<Rightarrow> bool" where
  "achievement_recorded n habit_id milestone =
     (ntype n = ''achievement''
      \<and> (case data n of
            None \<Rightarrow> False
          | Some d \<Rightarrow> map_of d ''habit_id'' = Some (JStr habit_id)
                      \<and> map_of d ''milestone'' = Some (JInt milestone)))"

text \<open>A sequence of achievement checks, each with its environment and arguments.\<close>

fun run_achievement_checks :: "(env \<times> string \<times> int \<times> string) list \<Rightarrow> state \<Rightarrow> state" where
  "run_achievement_checks [] s = s"
| "run_achievement_checks ((e, habit_id, streak, habit_title) # calls) s =
     run_achievement_checks calls (snd (check_streak_achievement e habit_id streak habit_title s))"

text \<open>The number of achievement notifications recorded for a habit and a milestone.\<close>

abbreviation recorded_count :: "string \<Rightarrow> int \<Rightarrow> state \<Rightarrow> nat" where
  "recorded_count habit_id m s \<equiv>
     length (filter (\<lambda>n. achievement_recorded n habit_id m) (notifications s))"

section \<open>Example data\<close>

text \<open>
  Concrete environments and states on which the theorems below are instantiated:
  1 January 2024 is the day with ordinal 738886, and the instants are 10:00 and about
  21:07 UTC of that day and 11:00 UTC of the next day.
\<close>

definition example_env :: env where
  "example_env = \<lparr> utc_now = 63839700000000000, date_today = 738886,
                    uuid4 = (\<lambda>k. replicate (Suc k) CHR ''u'') \<rparr>"

definition example_env_later :: env where
  "example_env_later = \<lparr> utc_now = 63839740000000000, date_today = 738886,
                          uuid4 = (\<lambda>k. replicate (Suc k) CHR ''v'') \<rparr>"

definition example_env_next_day :: env where
  "example_env_next_day = \<lparr> utc_now = 63839790000000000, date_today = 738887,
                             uuid4 = (\<lambda>k. replicate (Suc k) CHR ''w'') \<rparr>"

text \<open>A habit as \<open>create_task\<close> stores it, and the state that holds nothing else.\<close>

definition example_habit :: task_card where
  "example_habit = \<lparr> task_card_id = ''t1'', title = ''Daily Exercise'', content = '''',
      list_id = None, is_habit = True, reminder_time = None, current_streak = 0,
      longest_streak = 0, last_checkin_date = None, created_at = 63839600000000000,
      updated_at = 63839600000000000, is_deleted = False \<rparr>"

definition example_state :: state where
  "example_state = \<lparr> task_cards = [example_habit], checkin_records = [],
                      notifications = [], uuid_count = 0 \<rparr>"

text \<open>The same habit after its check-in of 1 January 2024.\<close>

definition example_habit_checked_in :: task_card where
  "example_habit_checked_in = example_habit\<lparr> current_streak := 1, longest_streak := 1,
      last_checkin_date := Some 738886, updated_at := 63839700000000000 \<rparr>"

definition example_checkin :: checkin_record where
  "example_checkin = \<lparr> record_id = ''u'', task_id = ''t1'', checkin_date = 738886,
                        checkin_time = 63839700000000000 \<rparr>"

definition example_state_checked_in :: state where
  "example_state_checked_in = \<lparr> task_cards = [example_habit_checked_in],
      checkin_records = [example_checkin], notifications = [], uuid_count = 1 \<rparr>"

text \<open>Two records of the same task and date under different identifiers.\<close>

definition example_state_duplicate :: state where
  "example_state_duplicate = example_state_checked_in\<lparr> checkin_records :=
      [example_checkin, example_checkin\<lparr> record_id := ''uu'' \<rparr>] \<rparr>"

text \<open>
  A notification of type \<open>daily_complete\<close> as \<open>POST /notifications\<close> stores it
  (\<open>create_notification\<close> of \<^verbatim>\<open>app/api/notifications.py\<close>), and a state that holds two
  of them, created at 08:00 and 09:00 UTC of 1 January 2024.
\<close>

definition posted_daily_complete :: "string \<Rightarrow> datetime \<Rightarrow> notification" where
  "posted_daily_complete nid t = \<lparr> notification_id = nid, ntype = ''daily_complete'',
      ntitle = ''done'', message = '''', data = None, is_read = False,
      notification_created_at = t, user_id = ''default'' \<rparr>"

definition example_state_two_daily :: state where
  "example_state_two_daily = example_state\<lparr> notifications :=
      [posted_daily_complete ''n1'' 63839692800000000,
       posted_daily_complete ''n2'' 63839696400000000] \<rparr>"

text \<open>
  A task that is not a habit and is soft-deleted, next to the habit already checked in;
  the same with two \<open>daily_complete\<close> notifications of the day.
\<close>

definition example_plain_task :: task_card where
  "example_plain_task = \<lparr> task_card_id = ''t2'', title = ''Buy milk'', content = '''',
      list_id = None, is_habit = False, reminder_time = None, current_streak = 0,
      longest_streak = 0, last_checkin_date = None, created_at = 63839600000000000,
      updated_at = 63839600000000000, is_deleted = True \<rparr>"

definition example_state_plain_two_daily :: state where
  "example_state_plain_two_daily = \<lparr> task_cards = [example_habit_checked_in, example_plain_task],
      checkin_records = [example_checkin],
      notifications = [posted_daily_complete ''n1'' 63839692800000000,
                       posted_daily_complete ''n2'' 63839696400000000],
      uuid_count = 1 \<rparr>"

definition example_plain_checked_in :: task_card where
  "example_plain_checked_in = example_plain_task\<lparr> current_streak := 1, longest_streak := 1,
      last_checkin_date := Some 738886, updated_at := 63839700000000000 \<rparr>"

definition example_state_plain :: state where
  "example_state_plain = example_state_plain_two_daily\<lparr> notifications := [] \<rparr>"

text \<open>Three check-in requests for the habit: two on 1 January 2024 and one the day after.\<close>

definition example_calls :: "(env \<times> string \<times> int option option) list" where
  "example_calls = [(example_env, ''t1'', None), (example_env_later, ''t1'', Some (Some 0)),
                    (example_env_next_day, ''t1'', None)]"

text \<open>
  23:00 UTC of 1 January 2024, which is 2 January for a client eight hours east of UTC.
\<close>

definition example_env_evening :: env where
  "example_env_evening = \<lparr> utc_now = 63839746800000000, date_today = 738886,
                            uuid4 = (\<lambda>k. replicate (Suc k) CHR ''x'') \<rparr>"

text \<open>
  A reminder and an at-risk warning for the example habit and a posted \<open>daily_complete\<close>
  notification, all created on 1 January 2024.
\<close>

definition example_reminder :: notification where
  "example_reminder = \<lparr> notification_id = ''n3'', ntype = ''habit_reminder'',
      ntitle = ''reminder'', message = '''',
      data = Some [(''habit_id'', JStr ''t1''), (''habit_title'', JStr ''Daily Exercise''),
                   (''current_streak'', JInt 0)],
      is_read = False, notification_created_at = 63839700000000000, user_id = ''default'' \<rparr>"

definition example_at_risk :: notification where
  "example_at_risk = \<lparr> notification_id = ''n4'', ntype = ''habit_reminder'',
      ntitle = ''warning'', message = '''',
      data = Some [(''habit_id'', JStr ''t1''), (''habit_title'', JStr ''Daily Exercise''),
                   (''current_streak'', JInt 3), (''at_risk'', JBool True)],
      is_read = False, notification_created_at = 63839700000000000, user_id = ''default'' \<rparr>"

definition example_state_reminded :: state where
  "example_state_reminded = example_state\<lparr> notifications :=
      [example_reminder, example_at_risk, posted_daily_complete ''n1'' 63839692800000000] \<rparr>"

text \<open>
  A habit with a streak of 3 whose last check-in was the day before, and a habit without a
  streak.
\<close>

definition example_habit_yesterday :: task_card where
  "example_habit_yesterday = example_habit\<lparr> task_card_id := ''t3'', current_streak := 3,
      longest_streak := 3, last_checkin_date := Some 738885 \<rparr>"

definition example_habit_idle :: task_card where
  "example_habit_idle = example_habit\<lparr> task_card_id := ''t4'', last_checkin_date := Some 738880 \<rparr>"

definition example_state_at_risk :: state where
  "example_state_at_risk = \<lparr> task_cards = [example_habit_yesterday, example_habit_idle],
      checkin_records = [], notifications = [], uuid_count = 0 \<rparr>"

text \<open>Three achievement checks for the same habit and the milestone 7, on two days.\<close>

definition example_achievement_calls :: "(env \<times> string \<times> int \<times> string) list" where
  "example_achievement_calls =
     [(example_env, ''t1'', 7, ''Daily Exercise''), (example_env_later, ''t1'', 7, ''Daily Exercise''),
      (example_env_next_day, ''t1'', 7, ''Daily Exercise'')]"

text \<open>
  00:30 UTC of 2 January 2024 on a server whose local day is still 1 January; the at-risk
  habit with a warning of 1 January; and the habit checked in with a posted
  \<open>daily_complete\<close> notification of 1 January.
\<close>

definition example_env_utc_ahead :: env where
  "example_env_utc_ahead = \<lparr> utc_now = 63839752200000000, date_today = 738886,
                              uuid4 = (\<lambda>k. replicate (Suc k) CHR ''y'') \<rparr>"

definition example_state_warned :: state where
  "example_state_warned = example_state_at_risk\<lparr> notifications :=
      [example_at_risk\<lparr> data := Some [(''habit_id'', JStr ''t3''),
                                        (''habit_title'', JStr ''Daily Exercise''),
                                        (''current_streak'', JInt 3),
                                        (''at_risk'', JBool True)] \<rparr>] \<rparr>"

definition example_state_done_posted :: state where
  "example_state_done_posted = example_state_checked_in\<lparr> notifications :=
      [posted_daily_complete ''n1'' 63839692800000000] \<rparr>"

section \<open>Auxiliary facts\<close>

lemmas example_defs = example_env_def example_env_later_def example_env_next_day_def
  example_habit_def example_state_def example_habit_checked_in_def example_checkin_def
  example_state_checked_in_def example_state_duplicate_def posted_daily_complete_def
  example_state_two_daily_def example_calls_def example_plain_task_def
  example_state_plain_two_daily_def example_plain_checked_in_def example_state_plain_def
  example_env_evening_def example_reminder_def example_at_risk_def example_state_reminded_def
  example_habit_yesterday_def example_habit_idle_def example_state_at_risk_def
  example_achievement_calls_def example_env_utc_ahead_def example_state_warned_def
  example_state_done_posted_def

lemmas time_defs = get_local_date_def timedelta_minutes_def datetime_minus_def MAX_DATETIME_def
  date_of_def US_PER_DAY_def US_PER_MINUTE_def start_of_day_def

lemmas checkin_defs = checkin_task_def find_task_def find_checkin_def timezone_offset_of_def
  update_streak_def touch_def calculate_streak_def commit_checkin_def
  check_streak_achievement_def ACHIEVEMENT_MILESTONES_def check_daily_complete_def
  active_habits_def check_existing_daily_complete_def notifications_of_utc_day_def
  create_achievement_def create_daily_complete_def create_notification_def Let_def

subsection \<open>The local date\<close>

lemma get_local_date_examples:
  "get_local_date 63839700000000000 (Some 0) = Inr 738886"
  "get_local_date 63839746800000000 (Some (- 480)) = Inr 738887"
  "get_local_date 63839700000000000 (Some 1100000000) = Inl OverflowError"
  "get_local_date 63839700000000000 (Some (- 1440000000000000)) = Inl OverflowError"
  "get_local_date 63839700000000000 None = Inl TypeError"
  by (simp_all add: time_defs)

lemma checkin_task_overflow_example:
  "checkin_task example_env ''t1'' (Some (Some 1100000000)) example_state
     = (Inl OverflowError, example_state)"
  by (simp add: example_defs checkin_defs time_defs)

subsection \<open>Query results\<close>

lemma scalar_one_or_none_Some: "scalar_one_or_none xs = Inr (Some x) \<longleftrightarrow> xs = [x]"
  by (cases xs rule: scalar_one_or_none.cases) auto

lemma scalar_one_or_none_None: "scalar_one_or_none xs = Inr None \<longleftrightarrow> xs = []"
  by (cases xs rule: scalar_one_or_none.cases) auto

lemma scalar_one_or_none_error: "scalar_one_or_none xs = Inl err \<Longrightarrow> err = MultipleResultsFound"
  by (cases xs rule: scalar_one_or_none.cases) auto


subsection \<open>The tables after a notification and after a check-in\<close>

lemma create_notification_tables:
  "task_cards (snd (create_notification e ty tt m d s)) = task_cards s"
  "checkin_records (snd (create_notification e ty tt m d s)) = checkin_records s"
  "notifications (snd (create_notification e ty tt m d s))
     = notifications s @ [fst (create_notification e ty tt m d s)]"
  by (simp_all add: create_notification_def Let_def)

lemma check_streak_achievement_tables:
  "task_cards (snd (check_streak_achievement e h k t s)) = task_cards s"
  "checkin_records (snd (check_streak_achievement e h k t s)) = checkin_records s"
  by (simp_all add: check_streak_achievement_def create_achievement_def create_notification_def
        Let_def split: prod.splits)

lemma check_daily_complete_tables:
  "task_cards (snd (check_daily_complete e s)) = task_cards s"
  "checkin_records (snd (check_daily_complete e s)) = checkin_records s"
  by (simp_all add: check_daily_complete_def create_daily_complete_def create_notification_def
        Let_def split: prod.splits sum.splits bool.splits)

lemma checkin_task_insert:
  assumes "find_task tid s = Inr (Some task)"
    and "get_local_date (utc_now e) (timezone_offset_of cd) = Inr today"
    and "find_checkin tid today s = Inr None"
  shows "checkin_task e tid cd s =
     (let task' = update_streak e today task;
          s1 = commit_checkin e tid today task' s;
          s2 = snd (check_streak_achievement e tid (current_streak task') (title task') s1);
          r = check_daily_complete e s2
      in (case fst r of Inl err \<Rightarrow> Inl err | Inr daily \<Rightarrow> Inr task', snd r))"
  using assms
  by (simp add: checkin_task_def Let_def case_prod_beta split: sum.splits)

lemma checkin_task_insert_tables:
  assumes "find_task tid s = Inr (Some task)"
    and "get_local_date (utc_now e) (timezone_offset_of cd) = Inr today"
    and "find_checkin tid today s = Inr None"
  shows "task_cards (snd (checkin_task e tid cd s))
           = map (\<lambda>t. if task_card_id t = tid
                       then update_streak e today task else t)
               (task_cards s)"
    and "checkin_records (snd (checkin_task e tid cd s))
           = checkin_records s @
               [\<lparr> record_id = uuid4 e (uuid_count s), task_id = tid,
                  checkin_date = today, checkin_time = utc_now e \<rparr>]"
  by (simp_all add: checkin_task_insert [OF assms] Let_def check_streak_achievement_tables
        check_daily_complete_tables commit_checkin_def)


lemma checkin_task_no_insert:
  assumes "\<not> (\<exists>task today. find_task tid s = Inr (Some task)
               \<and> get_local_date (utc_now e) (timezone_offset_of cd) = Inr today
               \<and> find_checkin tid today s = Inr None)"
  shows "snd (checkin_task e tid cd s) = s"
  using assms
  by (auto simp add: checkin_task_def Let_def split: sum.splits option.splits)


lemma find_checkin_exists:
  assumes "r \<in> set (checkin_records s)" and "task_id r = tid" and "checkin_date r = d"
  shows "find_checkin tid d s \<noteq> Inr None"
  using assms by (auto simp: find_checkin_def scalar_one_or_none_None filter_empty_conv)

lemma touch_fields:
  "task_card_id (touch e old new) = task_card_id new"
  "current_streak (touch e old new) = current_streak new"
  "longest_streak (touch e old new) = longest_streak new"
  "last_checkin_date (touch e old new) = last_checkin_date new"
  "is_habit (touch e old new) = is_habit new"
  "is_deleted (touch e old new) = is_deleted new"
  "title (touch e old new) = title new"
  by (auto simp: touch_def)

lemma update_streak_fields:
  "task_card_id (update_streak e today task) = task_card_id task"
  "current_streak (update_streak e today task)
     = calculate_streak (last_checkin_date task) (current_streak task) today"
  "longest_streak (update_streak e today task)
     = max (longest_streak task)
           (calculate_streak (last_checkin_date task) (current_streak task) today)"
  "last_checkin_date (update_streak e today task) = Some today"
  "is_habit (update_streak e today task) = is_habit task"
  "is_deleted (update_streak e today task) = is_deleted task"
  "title (update_streak e today task) = title task"
  by (simp_all add: update_streak_def Let_def touch_fields)

lemma filter_map_replace:
  "task_card_id t' = tid \<Longrightarrow>
   filter (\<lambda>t. task_card_id t = tid) (map (\<lambda>t. if task_card_id t = tid then t' else t) xs)
     = map (\<lambda>t. t') (filter (\<lambda>t. task_card_id t = tid) xs)"
  by (induction xs) auto

lemma find_task_id: "find_task tid s = Inr (Some task) \<Longrightarrow> task_card_id task = tid"
proof -
  assume "find_task tid s = Inr (Some task)"
  then have "filter (\<lambda>t. task_card_id t = tid) (task_cards s) = [task]"
    by (simp add: find_task_def scalar_one_or_none_Some)
  then have "task \<in> set (filter (\<lambda>t. task_card_id t = tid) (task_cards s))" by simp
  then show ?thesis by simp
qed

lemma find_task_after_insert:
  assumes "find_task tid s = Inr (Some task)"
    and "get_local_date (utc_now e) (timezone_offset_of cd) = Inr today"
    and "find_checkin tid today s = Inr None"
  shows "find_task tid (snd (checkin_task e tid cd s))
           = Inr (Some (update_streak e today task))"
proof -
  have f: "filter (\<lambda>t. task_card_id t = tid) (task_cards s) = [task]"
    using assms(1) by (simp add: find_task_def scalar_one_or_none_Some)
  have i: "task_card_id (update_streak e today task) = tid"
    using find_task_id [OF assms(1)] by (simp add: update_streak_fields)
  show ?thesis
    unfolding find_task_def checkin_task_insert_tables(1) [OF assms]
    by (simp add: filter_map_replace [OF i] f)
qed


lemma checkin_task_cases:
  obtains (unchanged) "snd (checkin_task e tid cd s) = s"
  | (inserted) task today where "find_task tid s = Inr (Some task)"
      "get_local_date (utc_now e) (timezone_offset_of cd) = Inr today"
      "find_checkin tid today s = Inr None"
  using checkin_task_no_insert by blast

lemma update_streak_ordered:
  "current_streak (update_streak e today task) \<le> longest_streak (update_streak e today task)"
  by (simp add: update_streak_fields)

lemma checkin_task_keeps_order:
  assumes "\<forall>t\<in>set (task_cards s). current_streak t \<le> longest_streak t"
  shows "\<forall>t\<in>set (task_cards (snd (checkin_task e tid cd s))). current_streak t \<le> longest_streak t"
proof (cases e tid cd s rule: checkin_task_cases)
  case unchanged
  with assms show ?thesis by simp
next
  case (inserted task today)
  show ?thesis
    unfolding checkin_task_insert_tables(1) [OF inserted]
    using assms update_streak_ordered by auto
qed

lemma run_checkins_keeps_order:
  "\<forall>t\<in>set (task_cards s). current_streak t \<le> longest_streak t \<Longrightarrow>
   \<forall>t\<in>set (task_cards (run_checkins calls s)). current_streak t \<le> longest_streak t"
proof (induction calls arbitrary: s)
  case Nil
  then show ?case by simp
next
  case (Cons c calls)
  obtain e tid cd where c: "c = (e, tid, cd)" by (cases c) auto
  show ?case
    unfolding c run_checkins.simps
    by (rule Cons.IH) (rule checkin_task_keeps_order [OF Cons.prems])
qed

lemma checkin_task_keeps_unique:
  assumes "unique_checkins s"
  shows "unique_checkins (snd (checkin_task e tid cd s))"
proof (cases e tid cd s rule: checkin_task_cases)
  case unchanged
  with assms show ?thesis by simp
next
  case (inserted task today)
  have "filter (\<lambda>r. task_id r = tid \<and> checkin_date r = today)
          (checkin_records s) = []"
    using inserted(3) by (simp add: find_checkin_def scalar_one_or_none_None)
  then have "(tid, today)
               \<notin> (\<lambda>r. (task_id r, checkin_date r)) ` set (checkin_records s)"
    by (auto simp: filter_empty_conv)
  then show ?thesis
    using assms
    unfolding unique_checkins_def checkin_task_insert_tables(2) [OF inserted]
    by simp
qed

lemma run_checkins_keeps_unique:
  "unique_checkins s \<Longrightarrow> unique_checkins (run_checkins calls s)"
proof (induction calls arbitrary: s)
  case Nil
  then show ?case by simp
next
  case (Cons c calls)
  obtain e tid cd where c: "c = (e, tid, cd)" by (cases c) auto
  show ?case
    unfolding c run_checkins.simps
    by (rule Cons.IH) (rule checkin_task_keeps_unique [OF Cons.prems])
qed

subsection \<open>The answer of a check-in that inserts\<close>

lemma scalar_one_or_none_Inl:
  "scalar_one_or_none xs = Inl err \<longleftrightarrow> err = MultipleResultsFound \<and> 2 \<le> length xs"
  by (cases xs rule: scalar_one_or_none.cases) auto

lemma check_daily_complete_error:
  "fst (check_daily_complete e s) = Inl err \<longleftrightarrow>
     err = MultipleResultsFound \<and> active_habits s \<noteq> []
     \<and> list_all (\<lambda>habit. last_checkin_date habit = Some (date_today e)) (active_habits s)
     \<and> 2 \<le> length (notifications_of_utc_day e ''daily_complete'' s)"
  by (auto simp add: check_daily_complete_def check_existing_daily_complete_def Let_def
        scalar_one_or_none_Inl scalar_one_or_none_Some scalar_one_or_none_None
        split: sum.splits bool.splits prod.splits)

lemma check_streak_achievement_notifications:
  "notifications (snd (check_streak_achievement e h k t s)) = notifications s
   \<or> (\<exists>n. ntype n = ''achievement''
          \<and> notifications (snd (check_streak_achievement e h k t s)) = notifications s @ [n])"
  by (simp add: check_streak_achievement_def create_achievement_def create_notification_def Let_def)

lemma daily_window_after_achievement:
  "notifications_of_utc_day e ''daily_complete'' (snd (check_streak_achievement e' h k t s))
     = notifications_of_utc_day e ''daily_complete'' s"
  using check_streak_achievement_notifications [of e' h k t s]
  by (auto simp add: notifications_of_utc_day_def Let_def)

lemma active_habits_cong: "task_cards s = task_cards s' \<Longrightarrow> active_habits s = active_habits s'"
  by (simp add: active_habits_def)

lemma response_shape:
  assumes "res = (case d of Inl err \<Rightarrow> Inl err | Inr x \<Rightarrow> Inr t)"
    and "\<And>err. d = Inl err \<longleftrightarrow> err = MultipleResultsFound \<and> C"
  shows "(res = Inr t \<or> res = Inl MultipleResultsFound)
         \<and> (res = Inl MultipleResultsFound \<longleftrightarrow> C)"
  using assms by (cases d) auto

lemma checkin_task_insert_response:
  assumes "find_task tid s = Inr (Some task)"
    and "get_local_date (utc_now e) (timezone_offset_of cd) = Inr today"
    and "find_checkin tid today s = Inr None"
  shows "(fst (checkin_task e tid cd s) = Inr (update_streak e today task)
          \<or> fst (checkin_task e tid cd s) = Inl MultipleResultsFound)
       \<and> (fst (checkin_task e tid cd s) = Inl MultipleResultsFound \<longleftrightarrow>
            active_habits (snd (checkin_task e tid cd s)) \<noteq> []
            \<and> list_all (\<lambda>habit. last_checkin_date habit = Some (date_today e))
                 (active_habits (snd (checkin_task e tid cd s)))
            \<and> 2 \<le> length (notifications_of_utc_day e ''daily_complete'' s))"
proof -
  let ?today = "today"
  let ?task' = "update_streak e ?today task"
  let ?s1 = "commit_checkin e tid ?today ?task' s"
  let ?s2 = "snd (check_streak_achievement e tid (current_streak ?task') (title ?task') ?s1)"
  let ?r = "check_daily_complete e ?s2"
  have R: "checkin_task e tid cd s
             = (case fst ?r of Inl err \<Rightarrow> Inl err | Inr daily \<Rightarrow> Inr ?task', snd ?r)"
    by (simp add: checkin_task_insert [OF assms] Let_def)
  have tc: "task_cards (snd ?r) = task_cards ?s2"
    by (simp add: check_daily_complete_tables)
  have ah: "active_habits (snd (checkin_task e tid cd s)) = active_habits ?s2"
    by (rule active_habits_cong) (simp add: R tc)
  have w: "notifications_of_utc_day e ''daily_complete'' ?s2
             = notifications_of_utc_day e ''daily_complete'' s"
    unfolding daily_window_after_achievement
    by (simp add: notifications_of_utc_day_def commit_checkin_def Let_def)
  have E: "\<And>err. fst ?r = Inl err \<longleftrightarrow>
     err = MultipleResultsFound \<and> active_habits ?s2 \<noteq> []
     \<and> list_all (\<lambda>habit. last_checkin_date habit = Some (date_today e)) (active_habits ?s2)
     \<and> 2 \<le> length (notifications_of_utc_day e ''daily_complete'' s)"
    unfolding check_daily_complete_error w ..
  have F: "fst (checkin_task e tid cd s)
             = (case fst ?r of Inl err \<Rightarrow> Inl err | Inr daily \<Rightarrow> Inr ?task')"
    by (simp add: R)
  show ?thesis
    unfolding ah by (rule response_shape [OF F E])
qed

lemma update_streak_flags:
  "update_streak e today (task\<lparr> is_habit := h, is_deleted := d \<rparr>)
     = (update_streak e today task)\<lparr> is_habit := h, is_deleted := d \<rparr>"
  by (cases task) (simp add: update_streak_def touch_def Let_def)

lemma get_local_date_error:
  "get_local_date now off = Inl err \<Longrightarrow> err \<noteq> NotFound"
  by (auto simp add: get_local_date_def timedelta_minutes_def datetime_minus_def
        split: option.splits sum.splits if_splits)

lemma checkin_task_not_found:
  "fst (checkin_task e tid cd s) = Inl NotFound \<longleftrightarrow> find_task tid s = Inr None"
proof (cases "find_task tid s")
  case (Inl err)
  then have "err = MultipleResultsFound"
    unfolding find_task_def by (rule scalar_one_or_none_error)
  with Inl show ?thesis by (simp add: checkin_task_def)
next
  case (Inr found)
  show ?thesis
  proof (cases found)
    case None
    with Inr show ?thesis by (simp add: checkin_task_def)
  next
    case (Some task)
    with Inr have ft: "find_task tid s = Inr (Some task)" by simp
    show ?thesis
    proof (cases "get_local_date (utc_now e) (timezone_offset_of cd)")
      case (Inl err)
      then have "err \<noteq> NotFound" by (rule get_local_date_error)
      with Inl ft show ?thesis by (simp add: checkin_task_def)
    next
      case (Inr today)
      note tz = this
      show ?thesis
      proof (cases "find_checkin tid today s")
        case (Inl err)
        then have "err = MultipleResultsFound"
          unfolding find_checkin_def by (rule scalar_one_or_none_error)
        with Inl ft tz show ?thesis by (simp add: checkin_task_def)
      next
        case (Inr existing)
        show ?thesis
        proof (cases existing)
          case None
          with Inr have "find_checkin tid today s = Inr None" by simp
          from checkin_task_insert_response [OF ft tz this] ft show ?thesis by auto
        next
          case (Some r)
          with Inr ft tz show ?thesis by (simp add: checkin_task_def)
        qed
      qed
    qed
  qed
qed

subsection \<open>Properties of every task kept by check-ins\<close>

lemma checkin_task_keeps_tasks:
  assumes "\<forall>t\<in>set (task_cards s). P t"
    and "\<And>e today t. P (update_streak e today t)"
  shows "\<forall>t\<in>set (task_cards (snd (checkin_task e tid cd s))). P t"
proof (cases e tid cd s rule: checkin_task_cases)
  case unchanged
  with assms(1) show ?thesis by simp
next
  case (inserted task today)
  show ?thesis
    unfolding checkin_task_insert_tables(1) [OF inserted]
    using assms by auto
qed

lemma run_checkins_keeps_tasks:
  assumes "\<forall>t\<in>set (task_cards s). P t"
    and "\<And>e today t. P (update_streak e today t)"
  shows "\<forall>t\<in>set (task_cards (run_checkins calls s)). P t"
  using assms(1)
proof (induction calls arbitrary: s)
  case Nil
  then show ?case by simp
next
  case (Cons c calls)
  obtain e tid cd where c: "c = (e, tid, cd)" by (cases c) auto
  have "\<forall>t\<in>set (task_cards (snd (checkin_task e tid cd s))). P t"
    using Cons.prems assms(2) by (rule checkin_task_keeps_tasks)
  then have "\<forall>t\<in>set (task_cards (run_checkins calls (snd (checkin_task e tid cd s)))). P t"
    by (rule Cons.IH)
  then show ?case by (simp add: c)
qed

subsection \<open>The window of the current UTC day\<close>

lemma div_window:
  fixes c D q :: int
  assumes "0 < D"
  shows "q * D \<le> c \<and> c < q * D + D \<longleftrightarrow> c div D = q"
proof
  assume a: "q * D \<le> c \<and> c < q * D + D"
  define r where "r = c - q * D"
  have "0 \<le> r" "r < D" "c = q * D + r" using a by (simp_all add: r_def)
  then have "c div D = q + r div D" using assms by simp
  also have "r div D = 0" using \<open>0 \<le> r\<close> \<open>r < D\<close> by simp
  finally show "c div D = q" by simp
next
  assume "c div D = q"
  then have q: "q = c div D" by simp
  have "c div D * D + c mod D = c" by simp
  moreover have "0 \<le> c mod D" "c mod D < D" using assms by simp_all
  ultimately show "q * D \<le> c \<and> c < q * D + D" unfolding q by linarith
qed

lemma utc_day_window:
  "start_of_day now \<le> c \<and> c < start_of_day now + US_PER_DAY \<longleftrightarrow> date_of c = date_of now"
proof -
  have "0 < US_PER_DAY" by (simp add: US_PER_DAY_def)
  from div_window [OF this, of "now div US_PER_DAY" c]
  show ?thesis by (simp add: start_of_day_def date_of_def)
qed

lemma notifications_of_utc_day_eq:
  "notifications_of_utc_day e ty s
     = filter (\<lambda>n. ntype n = ty \<and> date_of (notification_created_at n) = date_of (utc_now e))
         (notifications s)"
  unfolding notifications_of_utc_day_def Let_def
  by (rule filter_cong) (auto simp add: utc_day_window)

subsection \<open>Created rows\<close>

lemma create_notification_row:
  "ntype (fst (create_notification e ty tt m d s)) = ty"
  "data (fst (create_notification e ty tt m d s)) = d"
  "notification_created_at (fst (create_notification e ty tt m d s)) = utc_now e"
  "snd (create_notification e ty tt m d s)
     = s\<lparr> notifications := notifications s @ [fst (create_notification e ty tt m d s)],
          uuid_count := Suc (uuid_count s) \<rparr>"
  by (simp_all add: create_notification_def Let_def)

subsection \<open>The daily-complete check\<close>

lemma active_habits_set:
  "set (active_habits s) = {t \<in> set (task_cards s). is_habit t \<and> \<not> is_deleted t}"
  by (auto simp add: active_habits_def)

lemma check_existing_daily_complete_False:
  "check_existing_daily_complete e today s = Inr False
     \<longleftrightarrow> \<not> (\<exists>n\<in>set (notifications s).
               ntype n = ''daily_complete''
               \<and> date_of (notification_created_at n) = date_of (utc_now e))"
proof -
  have "check_existing_daily_complete e today s = Inr False
          \<longleftrightarrow> notifications_of_utc_day e ''daily_complete'' s = []"
    by (cases "notifications_of_utc_day e ''daily_complete'' s" rule: scalar_one_or_none.cases)
       (simp_all add: check_existing_daily_complete_def)
  then show ?thesis
    by (auto simp add: notifications_of_utc_day_eq filter_empty_conv)
qed

lemma check_daily_complete_cases:
  "check_daily_complete e s =
     (if active_habits s \<noteq> []
         \<and> list_all (\<lambda>habit. last_checkin_date habit = Some (date_today e)) (active_habits s)
      then (case check_existing_daily_complete e (date_today e) s of
              Inl err \<Rightarrow> (Inl err, s)
            | Inr True \<Rightarrow> (Inr None, s)
            | Inr False \<Rightarrow>
                (Inr (Some (fst (create_daily_complete e (active_habits s) (date_today e) s))),
                 snd (create_daily_complete e (active_habits s) (date_today e) s)))
      else (Inr None, s))"
  by (simp add: check_daily_complete_def Let_def case_prod_beta split: sum.splits bool.splits)

lemma create_daily_complete_row:
  "ntype (fst (create_daily_complete e habits today s)) = ''daily_complete''"
  "data (fst (create_daily_complete e habits today s))
     = Some [(''completed_count'', JInt (int (length habits))),
             (''date'', JStr (isoformat today))]"
  "notification_created_at (fst (create_daily_complete e habits today s)) = utc_now e"
  "snd (create_daily_complete e habits today s)
     = s\<lparr> notifications := notifications s @ [fst (create_daily_complete e habits today s)],
          uuid_count := Suc (uuid_count s) \<rparr>"
  unfolding create_daily_complete_def by (rule create_notification_row)+

subsection \<open>The achievement check\<close>

lemma sql_match_recorded:
  assumes "milestone \<noteq> 0" and "milestone \<noteq> 1"
  shows "ntype n = ''achievement''
         \<and> sql_eq (json_extract (data n) ''habit_id'') (SqlText habit_id)
         \<and> sql_eq (json_extract (data n) ''milestone'') (SqlInteger milestone)
         \<longleftrightarrow> achievement_recorded n habit_id milestone"
proof (cases "data n")
  case None
  then show ?thesis by (simp add: achievement_recorded_def)
next
  case (Some d)
  have h: "sql_eq (json_extract (Some d) ''habit_id'') (SqlText habit_id)
             \<longleftrightarrow> map_of d ''habit_id'' = Some (JStr habit_id)"
    by (auto split: option.splits jval.splits)
  have m: "sql_eq (json_extract (Some d) ''milestone'') (SqlInteger milestone)
             \<longleftrightarrow> map_of d ''milestone'' = Some (JInt milestone)"
    using assms by (auto split: option.splits jval.splits)
  show ?thesis unfolding Some h m by (simp add: achievement_recorded_def Some)
qed

lemma milestone_not_bool: "m \<in> set ACHIEVEMENT_MILESTONES \<Longrightarrow> m \<noteq> 0 \<and> m \<noteq> 1"
  by (auto simp add: ACHIEVEMENT_MILESTONES_def)

lemma check_existing_achievement_iff:
  assumes "milestone \<in> set ACHIEVEMENT_MILESTONES"
  shows "check_existing_achievement habit_id milestone s
           \<longleftrightarrow> (\<exists>n\<in>set (notifications s). achievement_recorded n habit_id milestone)"
proof -
  let ?P = "\<lambda>n. ntype n = ''achievement''
              \<and> sql_eq (json_extract (data n) ''habit_id'') (SqlText habit_id)
              \<and> sql_eq (json_extract (data n) ''milestone'') (SqlInteger milestone)"
  have "check_existing_achievement habit_id milestone s \<longleftrightarrow> filter ?P (notifications s) \<noteq> []"
    unfolding check_existing_achievement_def
    by (cases "filter ?P (notifications s)") simp_all
  also have "\<dots> \<longleftrightarrow> (\<exists>n\<in>set (notifications s). ?P n)"
    unfolding filter_empty_conv by blast
  also have "\<dots> \<longleftrightarrow> (\<exists>n\<in>set (notifications s). achievement_recorded n habit_id milestone)"
    using sql_match_recorded milestone_not_bool [OF assms] by blast
  finally show ?thesis .
qed

lemma create_achievement_row:
  "ntype (fst (create_achievement e habit_id streak habit_title s)) = ''achievement''"
  "data (fst (create_achievement e habit_id streak habit_title s))
     = Some [(''habit_id'', JStr habit_id), (''habit_title'', JStr habit_title),
             (''streak'', JInt streak), (''milestone'', JInt streak)]"
  "notification_created_at (fst (create_achievement e habit_id streak habit_title s)) = utc_now e"
  "snd (create_achievement e habit_id streak habit_title s)
     = s\<lparr> notifications := notifications s
                               @ [fst (create_achievement e habit_id streak habit_title s)],
          uuid_count := Suc (uuid_count s) \<rparr>"
  unfolding create_achievement_def by (rule create_notification_row)+

lemma check_streak_achievement_cases:
  "check_streak_achievement e habit_id streak habit_title s =
     (if streak \<in> set ACHIEVEMENT_MILESTONES \<and> \<not> check_existing_achievement habit_id streak s
      then (Some (fst (create_achievement e habit_id streak habit_title s)),
            snd (create_achievement e habit_id streak habit_title s))
      else (None, s))"
  by (simp add: check_streak_achievement_def case_prod_beta)

lemma achievement_created_row:
  assumes "fst (check_streak_achievement e habit_id streak habit_title s) = Some n"
  shows "ntype n = ''achievement''"
    and "data n = Some [(''habit_id'', JStr habit_id), (''habit_title'', JStr habit_title),
                        (''streak'', JInt streak), (''milestone'', JInt streak)]"
    and "snd (check_streak_achievement e habit_id streak habit_title s)
           = s\<lparr> notifications := notifications s @ [n], uuid_count := Suc (uuid_count s) \<rparr>"
    and "streak \<in> set ACHIEVEMENT_MILESTONES"
    and "\<not> check_existing_achievement habit_id streak s"
  using assms
  by (auto simp add: check_streak_achievement_cases create_achievement_row split: if_splits)

lemma achievement_not_created:
  assumes "fst (check_streak_achievement e habit_id streak habit_title s) = None"
  shows "snd (check_streak_achievement e habit_id streak habit_title s) = s"
  using assms by (auto simp add: check_streak_achievement_cases split: if_splits)

lemma created_row_recorded:
  assumes "ntype n = ''achievement''"
    and "data n = Some [(''habit_id'', JStr h), (''habit_title'', JStr t),
                        (''streak'', JInt k), (''milestone'', JInt k)]"
  shows "achievement_recorded n habit_id m \<longleftrightarrow> h = habit_id \<and> k = m"
  using assms by (auto simp add: achievement_recorded_def)


lemma achievement_step_count:
  "recorded_count habit_id m (snd (check_streak_achievement e h k t s))
     \<le> max 1 (recorded_count habit_id m s)"
proof (cases "fst (check_streak_achievement e h k t s)")
  case None
  then show ?thesis by (simp add: achievement_not_created)
next
  case (Some n)
  note r = achievement_created_row [OF Some]
  have rec: "achievement_recorded n habit_id m \<longleftrightarrow> h = habit_id \<and> k = m"
    by (rule created_row_recorded [OF r(1) r(2)])
  show ?thesis
  proof (cases "h = habit_id \<and> k = m")
    case True
    then have "\<not> (\<exists>n\<in>set (notifications s). achievement_recorded n habit_id m)"
      using r(4,5) check_existing_achievement_iff by blast
    then have "filter (\<lambda>n. achievement_recorded n habit_id m) (notifications s) = []"
      by (simp add: filter_empty_conv)
    then show ?thesis unfolding r(3) by (simp add: rec)
  next
    case False
    then have "\<not> achievement_recorded n habit_id m" using rec by blast
    then show ?thesis unfolding r(3) by simp
  qed
qed

lemma run_achievement_checks_count:
  "recorded_count habit_id m (run_achievement_checks calls s) \<le> max 1 (recorded_count habit_id m s)"
proof (induction calls arbitrary: s)
  case Nil
  then show ?case by simp
next
  case (Cons c calls)
  obtain e h k t where c: "c = (e, h, k, t)" by (cases c) auto
  have "recorded_count habit_id m (run_achievement_checks (c # calls) s)
          \<le> max 1 (recorded_count habit_id m (snd (check_streak_achievement e h k t s)))"
    unfolding c run_achievement_checks.simps by (rule Cons.IH)
  also have "\<dots> \<le> max 1 (max 1 (recorded_count habit_id m s))"
    using achievement_step_count [of habit_id m e h k t s] by simp
  finally show ?case by simp
qed

subsection \<open>The loop of the at-risk warnings\<close>

lemma at_risk_loop_acc:
  "at_risk_loop e today hs acc s
     = (acc @ fst (at_risk_loop e today hs [] s), snd (at_risk_loop e today hs [] s))"
proof (induction hs arbitrary: acc s)
  case Nil
  then show ?case by simp
next
  case (Cons h hs)
  show ?case
  proof (cases "check_existing_at_risk e (task_card_id h) today s")
    case True
    then show ?thesis using Cons.IH [of acc s] by simp
  next
    case False
    then show ?thesis
      using Cons.IH [of "acc @ [n]" s' for n s'] Cons.IH [of "[n]" s' for n s']
      by (simp add: case_prod_beta)
  qed
qed

lemma at_risk_loop_Cons:
  "at_risk_loop e today (h # hs) [] s =
     (if check_existing_at_risk e (task_card_id h) today s
      then at_risk_loop e today hs [] s
      else (fst (create_at_risk_notification e h s) # fst (at_risk_loop e today hs [] (snd (create_at_risk_notification e h s))),
            snd (at_risk_loop e today hs [] (snd (create_at_risk_notification e h s)))))"
  using at_risk_loop_acc [of e today hs "[fst (create_at_risk_notification e h s)]" "snd (create_at_risk_notification e h s)"]
  by (simp add: case_prod_beta)

declare at_risk_loop.simps(2) [simp del]

lemma at_risk_row:
  "ntype (fst (create_at_risk_notification e h s)) = ''habit_reminder''"
  "data (fst (create_at_risk_notification e h s))
     = Some [(''habit_id'', JStr (task_card_id h)), (''habit_title'', JStr (title h)),
             (''current_streak'', JInt (current_streak h)), (''at_risk'', JBool True)]"
  "notification_created_at (fst (create_at_risk_notification e h s)) = utc_now e"
  "data_names_habit (fst (create_at_risk_notification e h s)) X \<longleftrightarrow> X = task_card_id h"
  "data_at_risk (fst (create_at_risk_notification e h s))"
  "notifications (snd (create_at_risk_notification e h s)) = notifications s @ [fst (create_at_risk_notification e h s)]"
  by (auto simp add: create_at_risk_notification_def create_notification_def Let_def data_names_habit_def
        data_at_risk_def dict_get_def)

lemma check_existing_at_risk_iff:
  "check_existing_at_risk e habit_id today s \<longleftrightarrow>
      (\<exists>n\<in>set (notifications s).
          ntype n = ''habit_reminder''
          \<and> date_of (notification_created_at n) = date_of (utc_now e)
          \<and> data_names_habit n habit_id \<and> data_at_risk n)"
  by (auto simp add: check_existing_at_risk_def notifications_of_utc_day_eq list_ex_iff)

lemma check_existing_at_risk_after_create:
  "check_existing_at_risk e X today (snd (create_at_risk_notification e h s))
     \<longleftrightarrow> check_existing_at_risk e X today s \<or> X = task_card_id h"
  unfolding check_existing_at_risk_iff at_risk_row(6)
  by (auto simp add: at_risk_row)

lemma at_risk_loop_count:
  "length (filter (\<lambda>n. data_names_habit n X) (fst (at_risk_loop e today hs [] s)))
     = (if check_existing_at_risk e X today s then 0
        else if X \<in> set (map task_card_id hs) then 1 else 0)"
proof (induction hs arbitrary: s)
  case Nil
  then show ?case by simp
next
  case (Cons h hs)
  show ?case
  proof (cases "check_existing_at_risk e (task_card_id h) today s")
    case True
    then show ?thesis
      using Cons.IH [of s] by (auto simp add: at_risk_loop_Cons)
  next
    case False
    then show ?thesis
      using Cons.IH [of "snd (create_at_risk_notification e h s)"]
      by (auto simp add: at_risk_loop_Cons at_risk_row check_existing_at_risk_after_create)
  qed
qed

lemma at_risk_loop_rows:
  "n \<in> set (fst (at_risk_loop e today hs [] s)) \<Longrightarrow>
     ntype n = ''habit_reminder''
     \<and> (\<exists>d. data n = Some d \<and> map_of d ''at_risk'' = Some (JBool True))
     \<and> notification_created_at n = utc_now e
     \<and> (\<exists>h\<in>set hs. data_names_habit n (task_card_id h))"
proof (induction hs arbitrary: s)
  case Nil
  then show ?case by simp
next
  case (Cons h hs)
  show ?case
  proof (cases "check_existing_at_risk e (task_card_id h) today s")
    case True
    with Cons.prems have "n \<in> set (fst (at_risk_loop e today hs [] s))"
      by (simp add: at_risk_loop_Cons)
    from Cons.IH [OF this] show ?thesis by auto
  next
    case False
    with Cons.prems have "n = fst (create_at_risk_notification e h s)
        \<or> n \<in> set (fst (at_risk_loop e today hs [] (snd (create_at_risk_notification e h s))))"
      by (simp add: at_risk_loop_Cons)
    then show ?thesis
    proof
      assume "n = fst (create_at_risk_notification e h s)"
      then show ?thesis by (simp add: at_risk_row)
    next
      assume "n \<in> set (fst (at_risk_loop e today hs [] (snd (create_at_risk_notification e h s))))"
      from Cons.IH [OF this] show ?thesis by auto
    qed
  qed
qed

lemma at_risk_loop_notifications:
  "notifications (snd (at_risk_loop e today hs [] s))
     = notifications s @ fst (at_risk_loop e today hs [] s)"
proof (induction hs arbitrary: s)
  case Nil
  then show ?case by simp
next
  case (Cons h hs)
  show ?case
    using Cons.IH [of s] Cons.IH [of "snd (create_at_risk_notification e h s)"]
    by (simp add: at_risk_loop_Cons at_risk_row)
qed

lemma at_risk_habits_set:
  "set (at_risk_habits today s)
     = {t \<in> set (task_cards s). is_habit t \<and> \<not> is_deleted t \<and> 0 < current_streak t
          \<and> (\<exists>d. last_checkin_date t = Some d \<and> d \<noteq> today)}"
proof -
  have "\<And>l. sql_ne l today \<longleftrightarrow> (\<exists>d. l = Some d \<and> d \<noteq> today)"
    by (case_tac l) simp_all
  then show ?thesis by (auto simp add: at_risk_habits_def)
qed

lemma generate_at_risk_unfold:
  "generate_at_risk_notifications e s
     = at_risk_loop e (date_today e) (at_risk_habits (date_today e) s) [] s"
  by (simp add: generate_at_risk_notifications_def Let_def)

lemma data_names_habit_unique:
  "data_names_habit n X \<Longrightarrow> data_names_habit n Y \<Longrightarrow> X = Y"
  by (auto simp add: data_names_habit_def split: option.splits
        elim!: py_eq_str.elims)

lemma distinct_map_eq:
  "distinct (map f xs) \<Longrightarrow> x \<in> set xs \<Longrightarrow> y \<in> set xs \<Longrightarrow> f x = f y \<Longrightarrow> x = y"
  by (meson distinct_map inj_on_eq_iff)


subsection \<open>The loop of the habit reminders\<close>

lemma habit_reminders_loop_acc:
  "habit_reminders_loop e today hs acc s
     = (acc @ fst (habit_reminders_loop e today hs [] s),
        snd (habit_reminders_loop e today hs [] s))"
proof (induction hs arbitrary: acc s)
  case Nil
  then show ?case by simp
next
  case (Cons h hs)
  show ?case
  proof (cases "last_checkin_date h = Some today \<or> 0 < current_streak h
                \<or> check_existing_reminder e (task_card_id h) today s")
    case True
    then show ?thesis using Cons.IH [of acc s] by auto
  next
    case False
    then show ?thesis
      using Cons.IH [of "acc @ [n]" s' for n s'] Cons.IH [of "[n]" s' for n s']
      by (simp add: case_prod_beta)
  qed
qed

lemma habit_reminders_loop_Cons:
  "habit_reminders_loop e today (h # hs) [] s =
     (if last_checkin_date h = Some today \<or> 0 < current_streak h
         \<or> check_existing_reminder e (task_card_id h) today s
      then habit_reminders_loop e today hs [] s
      else (fst (create_habit_reminder e h s)
              # fst (habit_reminders_loop e today hs [] (snd (create_habit_reminder e h s))),
            snd (habit_reminders_loop e today hs [] (snd (create_habit_reminder e h s)))))"
  using habit_reminders_loop_acc [of e today hs "[fst (create_habit_reminder e h s)]"
          "snd (create_habit_reminder e h s)"]
  by (simp add: case_prod_beta)

declare habit_reminders_loop.simps(2) [simp del]

lemma habit_reminder_row:
  "ntype (fst (create_habit_reminder e h s)) = ''habit_reminder''"
  "data (fst (create_habit_reminder e h s))
     = Some [(''habit_id'', JStr (task_card_id h)), (''habit_title'', JStr (title h)),
             (''current_streak'', JInt (current_streak h))]"
  "notification_created_at (fst (create_habit_reminder e h s)) = utc_now e"
  "data_names_habit (fst (create_habit_reminder e h s)) X \<longleftrightarrow> X = task_card_id h"
  "\<not> data_at_risk (fst (create_habit_reminder e h s))"
  "notifications (snd (create_habit_reminder e h s))
     = notifications s @ [fst (create_habit_reminder e h s)]"
  by (auto simp add: create_habit_reminder_def create_notification_def Let_def
        data_names_habit_def data_at_risk_def dict_get_def)

lemma check_existing_reminder_iff:
  "check_existing_reminder e habit_id today s \<longleftrightarrow>
      (\<exists>n\<in>set (notifications s).
          ntype n = ''habit_reminder''
          \<and> date_of (notification_created_at n) = date_of (utc_now e)
          \<and> data_names_habit n habit_id \<and> \<not> data_at_risk n)"
  by (auto simp add: check_existing_reminder_def notifications_of_utc_day_eq list_ex_iff)

lemma check_existing_reminder_after_create:
  "check_existing_reminder e X today (snd (create_habit_reminder e h s))
     \<longleftrightarrow> check_existing_reminder e X today s \<or> X = task_card_id h"
  unfolding check_existing_reminder_iff habit_reminder_row(6)
  by (auto simp add: habit_reminder_row)

lemma habit_reminders_loop_count:
  "length (filter (\<lambda>n. data_names_habit n X) (fst (habit_reminders_loop e today hs [] s)))
     = (if check_existing_reminder e X today s then 0
        else if X \<in> set (map task_card_id
                            (filter (\<lambda>h. last_checkin_date h \<noteq> Some today
                                          \<and> \<not> 0 < current_streak h) hs))
             then 1 else 0)"
proof (induction hs arbitrary: s)
  case Nil
  then show ?case by simp
next
  case (Cons h hs)
  let ?due = "\<lambda>h. last_checkin_date h \<noteq> Some today \<and> \<not> 0 < current_streak h"
  let ?count = "\<lambda>ns. length (filter (\<lambda>n. data_names_habit n X) ns)"
  show ?case
  proof (cases "?due h")
    case False
    then have skip: "last_checkin_date h = Some today \<or> 0 < current_streak h" by blast
    have "habit_reminders_loop e today (h # hs) [] s = habit_reminders_loop e today hs [] s"
      using skip by (auto simp add: habit_reminders_loop_Cons)
    moreover have "filter ?due (h # hs) = filter ?due hs"
      using False by simp
    ultimately show ?thesis using Cons.IH [of s] by simp
  next
    case True
    then have noskip: "\<not> (last_checkin_date h = Some today \<or> 0 < current_streak h)" by blast
    have ids: "set (map task_card_id (filter ?due (h # hs)))
                 = insert (task_card_id h) (set (map task_card_id (filter ?due hs)))"
      using True by simp
    show ?thesis
    proof (cases "check_existing_reminder e (task_card_id h) today s")
      case True
      have "habit_reminders_loop e today (h # hs) [] s = habit_reminders_loop e today hs [] s"
        using True by (simp add: habit_reminders_loop_Cons)
      then have c: "?count (fst (habit_reminders_loop e today (h # hs) [] s))
                      = (if check_existing_reminder e X today s then 0
                         else if X \<in> set (map task_card_id (filter ?due hs)) then 1 else 0)"
        using Cons.IH [of s] by simp
      show ?thesis
      proof (cases "X = task_card_id h")
        case True
        with \<open>check_existing_reminder e (task_card_id h) today s\<close> c show ?thesis by simp
      next
        case False
        with c ids show ?thesis by simp
      qed
    next
      case False
      let ?n = "fst (create_habit_reminder e h s)"
      let ?s' = "snd (create_habit_reminder e h s)"
      have L: "fst (habit_reminders_loop e today (h # hs) [] s)
                 = ?n # fst (habit_reminders_loop e today hs [] ?s')"
        using False noskip by (auto simp add: habit_reminders_loop_Cons)
      have r: "?count (fst (habit_reminders_loop e today hs [] ?s'))
                 = (if check_existing_reminder e X today s \<or> X = task_card_id h then 0
                    else if X \<in> set (map task_card_id (filter ?due hs)) then 1 else 0)"
        using Cons.IH [of ?s'] by (simp add: check_existing_reminder_after_create)
      show ?thesis
      proof (cases "X = task_card_id h")
        case True
        then have "data_names_habit ?n X" by (simp add: habit_reminder_row)
        then have "?count (fst (habit_reminders_loop e today (h # hs) [] s)) = 1"
          unfolding L using r True by simp
        moreover have "\<not> check_existing_reminder e X today s" using False True by simp
        ultimately show ?thesis using ids True by simp
      next
        case False
        then have "\<not> data_names_habit ?n X" by (simp add: habit_reminder_row)
        then have "?count (fst (habit_reminders_loop e today (h # hs) [] s))
                     = ?count (fst (habit_reminders_loop e today hs [] ?s'))"
          unfolding L by simp
        with r False ids show ?thesis by simp
      qed
    qed
  qed
qed

lemma generate_habit_reminders_unfold:
  "generate_habit_reminders e s
     = habit_reminders_loop e (date_today e) (active_habits s) [] s"
  by (simp add: generate_habit_reminders_def Let_def)

lemma generate_habit_reminders_count:
  assumes "t \<in> set (task_cards s)" and "is_habit t" and "\<not> is_deleted t"
    and "last_checkin_date t \<noteq> Some (date_today e)" and "\<not> 0 < current_streak t"
  shows "length (filter (\<lambda>n. data_names_habit n (task_card_id t))
                  (fst (generate_habit_reminders e s)))
           = (if check_existing_reminder e (task_card_id t) (date_today e) s then 0 else 1)"
proof -
  have "t \<in> set (filter (\<lambda>h. last_checkin_date h \<noteq> Some (date_today e)
                               \<and> \<not> 0 < current_streak h) (active_habits s))"
    using assms by (simp add: active_habits_def)
  then have "task_card_id t \<in> set (map task_card_id
               (filter (\<lambda>h. last_checkin_date h \<noteq> Some (date_today e)
                             \<and> \<not> 0 < current_streak h) (active_habits s)))"
    unfolding set_map by (rule imageI)
  then show ?thesis
    unfolding generate_habit_reminders_unfold habit_reminders_loop_count by simp
qed

lemma generate_at_risk_count:
  assumes "t \<in> set (task_cards s)" and "is_habit t" and "\<not> is_deleted t"
    and "0 < current_streak t" and "last_checkin_date t = Some d" and "d \<noteq> date_today e"
  shows "length (filter (\<lambda>n. data_names_habit n (task_card_id t))
                  (fst (generate_at_risk_notifications e s)))
           = (if check_existing_at_risk e (task_card_id t) (date_today e) s then 0 else 1)"
proof -
  have "t \<in> set (at_risk_habits (date_today e) s)"
    unfolding at_risk_habits_set using assms by simp
  then have "task_card_id t \<in> set (map task_card_id (at_risk_habits (date_today e) s))"
    by simp
  then show ?thesis
    unfolding generate_at_risk_unfold at_risk_loop_count by simp
qed

section \<open>Properties of the streak engine\<close>

text \<open>
  Claim C1. The streak engine follows the four-branch table: 1 when there is no last
  check-in date; the current streak unchanged when the last check-in date is today; the
  current streak plus one when today is exactly one day after the last check-in date; and 1
  in every other case, in particular for a gap of two or more days and for a last check-in
  date in the future. The function has no argument besides these three, and as a HOL
  function it is deterministic and free of effects.
\<close>

theorem calculate_streak_table:
  "calculate_streak None c t = 1
   \<and> calculate_streak (Some t) c t = c
   \<and> (t - d = 1 \<longrightarrow> calculate_streak (Some d) c t = c + 1)
   \<and> (2 \<le> t - d \<longrightarrow> calculate_streak (Some d) c t = 1)
   \<and> (t < d \<longrightarrow> calculate_streak (Some d) c t = 1)
   \<and> (d \<noteq> t \<and> t - d \<noteq> 1 \<longrightarrow> calculate_streak (Some d) c t = 1)"
  by (simp add: calculate_streak_def Let_def)

theorem calculate_streak_table_witness:
  "calculate_streak None 5 738886 = 1
   \<and> calculate_streak (Some 738886) 5 738886 = 5
   \<and> (738886 - 738885 = (1::int) \<and> calculate_streak (Some 738885) 5 738886 = 6)
   \<and> ((2::int) \<le> 738886 - 738883 \<and> calculate_streak (Some 738883) 5 738886 = 1)
   \<and> ((738886::int) < 738890 \<and> calculate_streak (Some 738890) 5 738886 = 1)"
  using calculate_streak_table [of 5 738886 738885]
        calculate_streak_table [of 5 738886 738883]
        calculate_streak_table [of 5 738886 738890]
  by simp

section \<open>Properties of the check-in recorder\<close>




text \<open>
  Claim C3. After any sequence of check-ins the longest streak of every task is at least
  its current streak: from the initial state, where both are 0, and from any state where
  the order holds. A check-in that inserts a record sets the longest streak to the new
  streak when the new streak exceeds it, and leaves it otherwise.
\<close>

theorem longest_streak_invariant:
  "((\<forall>t\<in>set (task_cards s). current_streak t = 0 \<and> longest_streak t = 0)
      \<longrightarrow> (\<forall>t\<in>set (task_cards (run_checkins calls s)). current_streak t \<le> longest_streak t))
   \<and> ((\<forall>t\<in>set (task_cards s). current_streak t \<le> longest_streak t)
      \<longrightarrow> (\<forall>t\<in>set (task_cards (run_checkins calls s)). current_streak t \<le> longest_streak t))
   \<and> (find_task tid s = Inr (Some task) \<and> get_local_date (utc_now e) (timezone_offset_of cd) = Inr today
        \<and> find_checkin tid today s = Inr None
      \<longrightarrow> (\<exists>task'. find_task tid (snd (checkin_task e tid cd s)) = Inr (Some task')
             \<and> current_streak task'
                 = calculate_streak (last_checkin_date task) (current_streak task)
                     today
             \<and> longest_streak task'
                 = (if current_streak task' > longest_streak task
                    then current_streak task' else longest_streak task)))"
proof (intro conjI impI)
  assume "\<forall>t\<in>set (task_cards s). current_streak t = 0 \<and> longest_streak t = 0"
  then have "\<forall>t\<in>set (task_cards s). current_streak t \<le> longest_streak t" by simp
  then show "\<forall>t\<in>set (task_cards (run_checkins calls s)). current_streak t \<le> longest_streak t"
    by (rule run_checkins_keeps_order)
next
  assume "\<forall>t\<in>set (task_cards s). current_streak t \<le> longest_streak t"
  then show "\<forall>t\<in>set (task_cards (run_checkins calls s)). current_streak t \<le> longest_streak t"
    by (rule run_checkins_keeps_order)
next
  assume a: "find_task tid s = Inr (Some task) \<and> get_local_date (utc_now e) (timezone_offset_of cd) = Inr today
        \<and> find_checkin tid today s = Inr None"
  then have "find_task tid (snd (checkin_task e tid cd s))
               = Inr (Some (update_streak e today task))"
    using find_task_after_insert by blast
  then show "\<exists>task'. find_task tid (snd (checkin_task e tid cd s)) = Inr (Some task')
             \<and> current_streak task'
                 = calculate_streak (last_checkin_date task) (current_streak task)
                     today
             \<and> longest_streak task'
                 = (if current_streak task' > longest_streak task
                    then current_streak task' else longest_streak task)"
    by (auto simp add: update_streak_fields)
qed

theorem longest_streak_invariant_witness:
  "list_all (\<lambda>t. current_streak t = 0 \<and> longest_streak t = 0) (task_cards example_state)
   \<and> list_all (\<lambda>t. current_streak t \<le> longest_streak t)
        (task_cards (run_checkins example_calls example_state))
   \<and> find_task ''t1'' example_state = Inr (Some example_habit)
   \<and> get_local_date (utc_now example_env) (timezone_offset_of None) = Inr 738886
   \<and> find_checkin ''t1'' 738886 example_state = Inr None
   \<and> (\<exists>task'. find_task ''t1'' (snd (checkin_task example_env ''t1'' None example_state))
                 = Inr (Some task')
              \<and> current_streak task' = 1 \<and> longest_streak task' = 1)"
proof -
  have h0: "\<forall>t\<in>set (task_cards example_state). current_streak t = 0 \<and> longest_streak t = 0"
    by (simp add: example_defs)
  have h1: "find_task ''t1'' example_state = Inr (Some example_habit)"
    by (simp add: find_task_def example_defs)
  have h2: "get_local_date (utc_now example_env) (timezone_offset_of None) = Inr 738886"
    by (simp add: timezone_offset_of_def example_defs time_defs)
  have h3: "find_checkin ''t1'' 738886 example_state = Inr None"
    by (simp add: find_checkin_def example_defs)
  note T = longest_streak_invariant [of example_state example_calls "''t1''" example_habit
              example_env None 738886]
  from T h0 have c1: "\<forall>t\<in>set (task_cards (run_checkins example_calls example_state)).
                        current_streak t \<le> longest_streak t"
    by blast
  from T h1 h2 h3 obtain task' where
    c2: "find_task ''t1'' (snd (checkin_task example_env ''t1'' None example_state))
           = Inr (Some task')"
    and c3: "current_streak task'
               = calculate_streak (last_checkin_date example_habit) (current_streak example_habit)
                   738886"
    and c4: "longest_streak task'
               = (if current_streak task' > longest_streak example_habit
                  then current_streak task' else longest_streak example_habit)"
    by blast
  from c3 have c3': "current_streak task' = 1"
    by (simp add: calculate_streak_def example_defs)
  from c4 c3' have c4': "longest_streak task' = 1"
    by (simp add: example_defs)
  from h0 c1 h1 h2 h3 c2 c3' c4' show ?thesis
    by (auto simp add: list_all_iff)
qed

text \<open>
  Claim C7, as the code has it. Every check-in keeps the table at one record for a task
  and a calendar date at most, and so does every sequence of check-ins, from the empty table
  in particular. The guard is the existence query of \<open>checkin_task\<close>: a record is
  inserted only when no record of the task and the day exists.
\<close>

theorem unique_checkins_preserved:
  "(unique_checkins s \<longrightarrow> unique_checkins (snd (checkin_task e tid cd s)))
   \<and> (unique_checkins s \<longrightarrow> unique_checkins (run_checkins calls s))
   \<and> (checkin_records s = [] \<longrightarrow> unique_checkins (run_checkins calls s))
   \<and> (checkin_records (snd (checkin_task e tid cd s)) \<noteq> checkin_records s
      \<longrightarrow> (\<exists>today. get_local_date (utc_now e) (timezone_offset_of cd) = Inr today
            \<and> \<not> (\<exists>r\<in>set (checkin_records s).
                    task_id r = tid \<and> checkin_date r = today)))"
proof (intro conjI impI)
  assume "unique_checkins s"
  then show "unique_checkins (snd (checkin_task e tid cd s))"
    by (rule checkin_task_keeps_unique)
next
  assume "unique_checkins s"
  then show "unique_checkins (run_checkins calls s)"
    by (rule run_checkins_keeps_unique)
next
  assume "checkin_records s = []"
  then have "unique_checkins s" by (simp add: unique_checkins_def)
  then show "unique_checkins (run_checkins calls s)"
    by (rule run_checkins_keeps_unique)
next
  assume ch: "checkin_records (snd (checkin_task e tid cd s)) \<noteq> checkin_records s"
  show "\<exists>today. get_local_date (utc_now e) (timezone_offset_of cd) = Inr today
            \<and> \<not> (\<exists>r\<in>set (checkin_records s).
                    task_id r = tid \<and> checkin_date r = today)"
  proof (cases e tid cd s rule: checkin_task_cases)
    case unchanged
    with ch show ?thesis by simp
  next
    case (inserted task today)
    have "\<not> (\<exists>r\<in>set (checkin_records s).
                task_id r = tid \<and> checkin_date r = today)"
      using inserted(3) find_checkin_exists by blast
    with inserted(2) show ?thesis by blast
  qed
qed

theorem unique_checkins_preserved_witness:
  "unique_checkins example_state_checked_in
   \<and> unique_checkins (snd (checkin_task example_env_next_day ''t1'' None example_state_checked_in))
   \<and> unique_checkins (run_checkins example_calls example_state_checked_in)
   \<and> checkin_records example_state = []
   \<and> unique_checkins (run_checkins example_calls example_state)
   \<and> checkin_records (snd (checkin_task example_env ''t1'' None example_state))
        \<noteq> checkin_records example_state
   \<and> (\<exists>today. get_local_date (utc_now example_env) (timezone_offset_of None) = Inr today
         \<and> \<not> list_ex (\<lambda>r. task_id r = ''t1''
                            \<and> checkin_date r = today)
                 (checkin_records example_state))"
proof -
  have h1: "unique_checkins example_state_checked_in"
    by (simp add: unique_checkins_def example_defs)
  have h2: "checkin_records example_state = []"
    by (simp add: example_defs)
  have h3: "checkin_records (snd (checkin_task example_env ''t1'' None example_state))
        \<noteq> checkin_records example_state"
    by (simp add: example_defs checkin_defs time_defs)
  note T1 = unique_checkins_preserved [of example_state_checked_in example_env_next_day "''t1''"
               None example_calls]
  note T2 = unique_checkins_preserved [of example_state example_env "''t1''" None example_calls]
  from T1 h1 have c1: "unique_checkins
      (snd (checkin_task example_env_next_day ''t1'' None example_state_checked_in))"
    by blast
  from T1 h1 have c2: "unique_checkins (run_checkins example_calls example_state_checked_in)"
    by blast
  from T2 h2 have c3: "unique_checkins (run_checkins example_calls example_state)"
    by blast
  from T2 h3 have c4: "\<exists>today. get_local_date (utc_now example_env) (timezone_offset_of None) = Inr today
         \<and> \<not> list_ex (\<lambda>r. task_id r = ''t1''
                            \<and> checkin_date r = today)
                 (checkin_records example_state)"
    unfolding list_ex_iff by blast
  from h1 c1 c2 h2 c3 h3 c4 show ?thesis by blast
qed

text \<open>
  The table itself declares no uniqueness constraint on the task and the date, against the
  second half of claim C7: the state below satisfies every constraint the table declares
  and holds two records of one task and one date. A further check-in on it raises
  \<open>MultipleResultsFound\<close> and leaves the state as it is.
\<close>

theorem store_accepts_duplicate_checkin:
  "checkin_records_constraints example_state_duplicate
   \<and> \<not> unique_checkins example_state_duplicate
   \<and> length (filter (\<lambda>r. task_id r = ''t1'' \<and> checkin_date r = 738886)
               (checkin_records example_state_duplicate)) = 2
   \<and> checkin_task example_env ''t1'' None example_state_duplicate
        = (Inl MultipleResultsFound, example_state_duplicate)"
  by (simp add: checkin_records_constraints_def unique_checkins_def example_defs checkin_defs
        time_defs)

text \<open>
  Claim C8, as the code has it. A check-in that inserts commits its record and the new
  streak fields, and nothing that follows takes them back. The achievement check cannot
  raise. The daily-complete check raises \<open>MultipleResultsFound\<close> exactly when there are
  active habits, all of them are done on the server's today, and two or more
  \<open>daily_complete\<close> notifications of the current UTC day exist; \<open>checkin_task\<close> does
  not catch it, so the request then fails with that exception. In every other case the
  answer is the updated task.
\<close>

theorem checkin_commit_survives_notification_failure:
  assumes "find_task tid s = Inr (Some task)"
    and "get_local_date (utc_now e) (timezone_offset_of cd) = Inr today"
    and "find_checkin tid today s = Inr None"
  shows "checkin_records (snd (checkin_task e tid cd s))
           = checkin_records s @
               [\<lparr> record_id = uuid4 e (uuid_count s), task_id = tid,
                  checkin_date = today, checkin_time = utc_now e \<rparr>]
       \<and> find_task tid (snd (checkin_task e tid cd s))
           = Inr (Some (update_streak e today task))
       \<and> (fst (checkin_task e tid cd s)
             = Inr (update_streak e today task)
          \<or> fst (checkin_task e tid cd s) = Inl MultipleResultsFound)
       \<and> (fst (checkin_task e tid cd s) = Inl MultipleResultsFound \<longleftrightarrow>
            active_habits (snd (checkin_task e tid cd s)) \<noteq> []
            \<and> list_all (\<lambda>habit. last_checkin_date habit = Some (date_today e))
                 (active_habits (snd (checkin_task e tid cd s)))
            \<and> 2 \<le> length (notifications_of_utc_day e ''daily_complete'' s))"
  using checkin_task_insert_tables(2) [OF assms] find_task_after_insert [OF assms]
    checkin_task_insert_response [OF assms]
  by blast

theorem checkin_commit_survives_notification_failure_witness:
  "find_task ''t1'' example_state = Inr (Some example_habit)
   \<and> get_local_date (utc_now example_env) (timezone_offset_of None) = Inr 738886
   \<and> find_checkin ''t1'' 738886 example_state = Inr None
   \<and> checkin_records (snd (checkin_task example_env ''t1'' None example_state))
       = [example_checkin]
   \<and> find_task ''t1'' (snd (checkin_task example_env ''t1'' None example_state))
       = Inr (Some example_habit_checked_in)
   \<and> fst (checkin_task example_env ''t1'' None example_state) = Inr example_habit_checked_in"
proof -
  have h1: "find_task ''t1'' example_state = Inr (Some example_habit)"
    by (simp add: find_task_def example_defs)
  have h2: "get_local_date (utc_now example_env) (timezone_offset_of None) = Inr 738886"
    by (simp add: timezone_offset_of_def example_defs time_defs)
  have h3: "find_checkin ''t1'' 738886 example_state = Inr None"
    by (simp add: find_checkin_def example_defs)
  have u: "update_streak example_env 738886 example_habit
             = example_habit_checked_in"
    by (simp add: update_streak_def touch_def calculate_streak_def example_defs time_defs)
  have r: "\<lparr> record_id = uuid4 example_env (uuid_count example_state), task_id = ''t1'',
             checkin_date = 738886,
             checkin_time = utc_now example_env \<rparr> = example_checkin"
    by (simp add: example_defs time_defs)
  have w: "\<not> 2 \<le> length (notifications_of_utc_day example_env ''daily_complete'' example_state)"
    by (simp add: notifications_of_utc_day_def example_defs)
  note T = checkin_commit_survives_notification_failure [OF h1 h2 h3, unfolded u r]
  from T w have c: "fst (checkin_task example_env ''t1'' None example_state)
                      = Inr example_habit_checked_in"
    by blast
  have e: "checkin_records example_state = []"
    by (simp add: example_defs)
  from T h1 h2 h3 c e show ?thesis by simp
qed

text \<open>
  Against claim C8 as stated: a first check-in of the example habit, in a state that holds
  two posted \<open>daily_complete\<close> notifications of the day, commits the record and the
  streak and then fails with \<open>MultipleResultsFound\<close> instead of answering with the task.
\<close>

theorem checkin_fails_after_commit:
  "find_task ''t1'' example_state_two_daily = Inr (Some example_habit)
   \<and> get_local_date (utc_now example_env) (timezone_offset_of None) = Inr 738886
   \<and> find_checkin ''t1'' 738886 example_state_two_daily
       = Inr None
   \<and> fst (checkin_task example_env ''t1'' None example_state_two_daily)
       = Inl MultipleResultsFound
   \<and> checkin_records (snd (checkin_task example_env ''t1'' None example_state_two_daily))
       = [example_checkin]
   \<and> task_cards (snd (checkin_task example_env ''t1'' None example_state_two_daily))
       = [example_habit_checked_in]"
  by (simp add: example_defs checkin_defs time_defs)

text \<open>
  Claim C10, as the code has it. \<open>checkin_task\<close> tests neither \<open>is_habit\<close> nor
  \<open>is_deleted\<close>: for every stored task, a first check-in of a local day inserts the
  record and writes the current streak, the last check-in date and the longest streak, and
  what it writes is the same whatever the two flags are. \<open>NotFound\<close> is answered exactly
  when no task has the identifier. The answer of such a check-in is the updated task,
  unless the daily-complete check that runs after the commit raises: the exception is not
  caught and is answered in place of the task.
\<close>

theorem checkin_ignores_habit_and_deleted_flags:
  "(find_task tid s = Inr (Some task) \<and> get_local_date (utc_now e) (timezone_offset_of cd) = Inr today
      \<and> find_checkin tid today s = Inr None
    \<longrightarrow> checkin_records (snd (checkin_task e tid cd s))
           = checkin_records s @
               [\<lparr> record_id = uuid4 e (uuid_count s), task_id = tid,
                  checkin_date = today, checkin_time = utc_now e \<rparr>]
       \<and> find_task tid (snd (checkin_task e tid cd s))
           = Inr (Some (update_streak e today task))
       \<and> (fst (checkin_task e tid cd s)
             = Inr (update_streak e today task)
          \<or> fst (checkin_task e tid cd s) = Inl MultipleResultsFound))
   \<and> update_streak e today (task\<lparr> is_habit := h, is_deleted := d \<rparr>)
       = (update_streak e today task)\<lparr> is_habit := h, is_deleted := d \<rparr>
   \<and> current_streak (update_streak e today task)
       = calculate_streak (last_checkin_date task) (current_streak task) today
   \<and> last_checkin_date (update_streak e today task) = Some today
   \<and> longest_streak (update_streak e today task)
       = max (longest_streak task)
             (calculate_streak (last_checkin_date task) (current_streak task) today)
   \<and> (fst (checkin_task e tid cd s) = Inl NotFound \<longleftrightarrow> find_task tid s = Inr None)
   \<and> (find_task tid s = Inr None \<longleftrightarrow> tid \<notin> set (map task_card_id (task_cards s)))"
proof (intro conjI impI)
  assume a: "find_task tid s = Inr (Some task) \<and> get_local_date (utc_now e) (timezone_offset_of cd) = Inr today
      \<and> find_checkin tid today s = Inr None"
  then have a1: "find_task tid s = Inr (Some task)"
    and a2: "get_local_date (utc_now e) (timezone_offset_of cd) = Inr today"
    and a3: "find_checkin tid today s = Inr None"
    by simp_all
  show "checkin_records (snd (checkin_task e tid cd s))
           = checkin_records s @
               [\<lparr> record_id = uuid4 e (uuid_count s), task_id = tid,
                  checkin_date = today, checkin_time = utc_now e \<rparr>]"
    by (rule checkin_task_insert_tables(2) [OF a1 a2 a3])
  show "find_task tid (snd (checkin_task e tid cd s))
           = Inr (Some (update_streak e today task))"
    by (rule find_task_after_insert [OF a1 a2 a3])
  show "fst (checkin_task e tid cd s)
             = Inr (update_streak e today task)
          \<or> fst (checkin_task e tid cd s) = Inl MultipleResultsFound"
    using checkin_task_insert_response [OF a1 a2 a3] by blast
next
  show "update_streak e today (task\<lparr> is_habit := h, is_deleted := d \<rparr>)
       = (update_streak e today task)\<lparr> is_habit := h, is_deleted := d \<rparr>"
    by (rule update_streak_flags)
next
  show "current_streak (update_streak e today task)
       = calculate_streak (last_checkin_date task) (current_streak task) today"
    by (rule update_streak_fields)
next
  show "last_checkin_date (update_streak e today task) = Some today"
    by (rule update_streak_fields)
next
  show "longest_streak (update_streak e today task)
       = max (longest_streak task)
             (calculate_streak (last_checkin_date task) (current_streak task) today)"
    by (rule update_streak_fields)
next
  show "fst (checkin_task e tid cd s) = Inl NotFound \<longleftrightarrow> find_task tid s = Inr None"
    by (rule checkin_task_not_found)
next
  show "find_task tid s = Inr None \<longleftrightarrow> tid \<notin> set (map task_card_id (task_cards s))"
    by (auto simp add: find_task_def scalar_one_or_none_None filter_empty_conv)
qed

theorem checkin_ignores_habit_and_deleted_flags_witness:
  "find_task ''t2'' example_state_plain = Inr (Some example_plain_task)
   \<and> \<not> is_habit example_plain_task \<and> is_deleted example_plain_task
   \<and> get_local_date (utc_now example_env) (timezone_offset_of None) = Inr 738886
   \<and> find_checkin ''t2'' 738886 example_state_plain = Inr None
   \<and> checkin_records (snd (checkin_task example_env ''t2'' None example_state_plain))
       = [example_checkin, \<lparr> record_id = ''uu'', task_id = ''t2'', checkin_date = 738886,
                             checkin_time = 63839700000000000 \<rparr>]
   \<and> find_task ''t2'' (snd (checkin_task example_env ''t2'' None example_state_plain))
       = Inr (Some example_plain_checked_in)
   \<and> fst (checkin_task example_env ''t2'' None example_state_plain) \<noteq> Inl NotFound
   \<and> fst (checkin_task example_env ''missing'' None example_state_plain) = Inl NotFound"
proof -
  have h1: "find_task ''t2'' example_state_plain = Inr (Some example_plain_task)"
    by (simp add: find_task_def example_defs)
  have h0: "\<not> is_habit example_plain_task \<and> is_deleted example_plain_task"
    by (simp add: example_defs)
  have h2: "get_local_date (utc_now example_env) (timezone_offset_of None) = Inr 738886"
    by (simp add: timezone_offset_of_def example_defs time_defs)
  have h3: "find_checkin ''t2'' 738886 example_state_plain
              = Inr None"
    by (simp add: find_checkin_def example_defs time_defs)
  have h4: "find_task ''missing'' example_state_plain = Inr None"
    by (simp add: find_task_def example_defs)
  have u: "update_streak example_env 738886 example_plain_task
             = example_plain_checked_in"
    by (simp add: update_streak_def touch_def calculate_streak_def example_defs time_defs)
  have r: "checkin_records example_state_plain @
             [\<lparr> record_id = uuid4 example_env (uuid_count example_state_plain), task_id = ''t2'',
                checkin_date = 738886,
                checkin_time = utc_now example_env \<rparr>]
           = [example_checkin, \<lparr> record_id = ''uu'', task_id = ''t2'', checkin_date = 738886,
                                 checkin_time = 63839700000000000 \<rparr>]"
    by (simp add: example_defs time_defs)
  note T = checkin_ignores_habit_and_deleted_flags
             [where tid = "''t2''" and s = example_state_plain and task = example_plain_task
                and e = example_env and cd = None and today = 738886, unfolded u r]
  note M = checkin_ignores_habit_and_deleted_flags
             [where tid = "''missing''" and s = example_state_plain and task = example_plain_task
                and e = example_env and cd = None and today = 738886]
  from T h1 h2 h3 have c1:
    "checkin_records (snd (checkin_task example_env ''t2'' None example_state_plain))
       = [example_checkin, \<lparr> record_id = ''uu'', task_id = ''t2'', checkin_date = 738886,
                             checkin_time = 63839700000000000 \<rparr>]"
    and c2: "find_task ''t2'' (snd (checkin_task example_env ''t2'' None example_state_plain))
       = Inr (Some example_plain_checked_in)"
    by blast+
  from T h1 have c3: "fst (checkin_task example_env ''t2'' None example_state_plain) \<noteq> Inl NotFound"
    by simp
  from M h4 have c4: "fst (checkin_task example_env ''missing'' None example_state_plain) = Inl NotFound"
    by blast
  from h1 h0 h2 h3 c1 c2 c3 c4 show ?thesis by blast
qed

text \<open>
  Against claim C10 as stated: the first check-in of a stored task that is deleted and is
  not a habit fails, after its commit, with an exception that is not \<open>NotFound\<close>.
\<close>

theorem plain_task_checkin_fails_after_commit:
  "find_task ''t2'' example_state_plain_two_daily = Inr (Some example_plain_task)
   \<and> \<not> is_habit example_plain_task \<and> is_deleted example_plain_task
   \<and> get_local_date (utc_now example_env) (timezone_offset_of None) = Inr 738886
   \<and> find_checkin ''t2'' 738886 example_state_plain_two_daily
       = Inr None
   \<and> fst (checkin_task example_env ''t2'' None example_state_plain_two_daily)
       = Inl MultipleResultsFound
   \<and> fst (checkin_task example_env ''t2'' None example_state_plain_two_daily) \<noteq> Inl NotFound"
  by (simp add: example_defs checkin_defs time_defs)

section \<open>Properties of the notification service\<close>

text \<open>
  Claim C4. \<open>check_streak_achievement\<close> creates a notification exactly when the streak
  is one of 7, 14, 30, 60 and 100 and no achievement notification is recorded for the habit
  and that milestone; the check reads neither the clock nor any date. The row created is of
  type \<open>achievement\<close> and carries the habit, its title, the streak and the milestone; when
  nothing is created the state is unchanged, which is always so for a streak that is no
  milestone. Over any sequence of achievement checks, for any habits and streaks, the number
  of achievement notifications recorded for one habit and one milestone never grows beyond
  one: from a table without notifications it is at most one at the end.
\<close>

theorem achievement_created_once_per_milestone:
  "((\<exists>n. fst (check_streak_achievement e habit_id streak habit_title s) = Some n) \<longleftrightarrow>
       streak \<in> {7, 14, 30, 60, 100}
       \<and> \<not> (\<exists>n\<in>set (notifications s). achievement_recorded n habit_id streak))
   \<and> (\<forall>n. fst (check_streak_achievement e habit_id streak habit_title s) = Some n \<longrightarrow>
         ntype n = ''achievement''
         \<and> data n = Some [(''habit_id'', JStr habit_id), (''habit_title'', JStr habit_title),
                          (''streak'', JInt streak), (''milestone'', JInt streak)]
         \<and> achievement_recorded n habit_id streak
         \<and> snd (check_streak_achievement e habit_id streak habit_title s)
             = s\<lparr> notifications := notifications s @ [n], uuid_count := Suc (uuid_count s) \<rparr>)
   \<and> (fst (check_streak_achievement e habit_id streak habit_title s) = None
       \<longrightarrow> snd (check_streak_achievement e habit_id streak habit_title s) = s)
   \<and> (streak \<notin> {7, 14, 30, 60, 100}
       \<longrightarrow> check_streak_achievement e habit_id streak habit_title s = (None, s))
   \<and> length (filter (\<lambda>n. achievement_recorded n habit_id streak)
               (notifications (run_achievement_checks calls s)))
       \<le> max 1 (length (filter (\<lambda>n. achievement_recorded n habit_id streak) (notifications s)))
   \<and> (notifications s = []
       \<longrightarrow> length (filter (\<lambda>n. achievement_recorded n habit_id streak)
                     (notifications (run_achievement_checks calls s))) \<le> 1)"
proof (intro conjI)
  have ms: "set ACHIEVEMENT_MILESTONES = {7, 14, 30, 60, 100}"
    by (simp add: ACHIEVEMENT_MILESTONES_def)
  show "(\<exists>n. fst (check_streak_achievement e habit_id streak habit_title s) = Some n) \<longleftrightarrow>
       streak \<in> {7, 14, 30, 60, 100}
       \<and> \<not> (\<exists>n\<in>set (notifications s). achievement_recorded n habit_id streak)"
  proof (cases "streak \<in> set ACHIEVEMENT_MILESTONES")
    case True
    from check_existing_achievement_iff [OF True, of habit_id s] True
    show ?thesis unfolding ms [symmetric]
      by (simp add: check_streak_achievement_cases)
  next
    case False
    then show ?thesis unfolding ms [symmetric]
      by (simp add: check_streak_achievement_cases)
  qed
  show "\<forall>n. fst (check_streak_achievement e habit_id streak habit_title s) = Some n \<longrightarrow>
         ntype n = ''achievement''
         \<and> data n = Some [(''habit_id'', JStr habit_id), (''habit_title'', JStr habit_title),
                          (''streak'', JInt streak), (''milestone'', JInt streak)]
         \<and> achievement_recorded n habit_id streak
         \<and> snd (check_streak_achievement e habit_id streak habit_title s)
             = s\<lparr> notifications := notifications s @ [n], uuid_count := Suc (uuid_count s) \<rparr>"
  proof (intro allI impI)
    fix n
    assume a: "fst (check_streak_achievement e habit_id streak habit_title s) = Some n"
    note r = achievement_created_row [OF a]
    have "achievement_recorded n habit_id streak"
      using created_row_recorded [OF r(1) r(2)] by simp
    with r(1,2,3) show "ntype n = ''achievement''
         \<and> data n = Some [(''habit_id'', JStr habit_id), (''habit_title'', JStr habit_title),
                          (''streak'', JInt streak), (''milestone'', JInt streak)]
         \<and> achievement_recorded n habit_id streak
         \<and> snd (check_streak_achievement e habit_id streak habit_title s)
             = s\<lparr> notifications := notifications s @ [n], uuid_count := Suc (uuid_count s) \<rparr>"
      by blast
  qed
  show "fst (check_streak_achievement e habit_id streak habit_title s) = None
       \<longrightarrow> snd (check_streak_achievement e habit_id streak habit_title s) = s"
    using achievement_not_created by blast
  show "streak \<notin> {7, 14, 30, 60, 100}
       \<longrightarrow> check_streak_achievement e habit_id streak habit_title s = (None, s)"
    unfolding ms [symmetric] by (simp add: check_streak_achievement_cases)
  show c: "length (filter (\<lambda>n. achievement_recorded n habit_id streak)
               (notifications (run_achievement_checks calls s)))
       \<le> max 1 (length (filter (\<lambda>n. achievement_recorded n habit_id streak) (notifications s)))"
    by (rule run_achievement_checks_count)
  show "notifications s = []
       \<longrightarrow> length (filter (\<lambda>n. achievement_recorded n habit_id streak)
                     (notifications (run_achievement_checks calls s))) \<le> 1"
    using c by auto
qed

theorem achievement_created_once_per_milestone_witness:
  "(7::int) \<in> {7, 14, 30, 60, 100}
   \<and> \<not> list_ex (\<lambda>n. achievement_recorded n ''t1'' 7) (notifications example_state)
   \<and> (\<exists>n. fst (check_streak_achievement example_env ''t1'' 7 ''Daily Exercise'' example_state)
             = Some n
          \<and> ntype n = ''achievement''
          \<and> data n = Some [(''habit_id'', JStr ''t1''), (''habit_title'', JStr ''Daily Exercise''),
                           (''streak'', JInt 7), (''milestone'', JInt 7)]
          \<and> fst (check_streak_achievement example_env_next_day ''t1'' 7 ''Daily Exercise''
                    (example_state\<lparr> notifications := [n], uuid_count := 1 \<rparr>)) = None)
   \<and> (8::int) \<notin> {7, 14, 30, 60, 100}
   \<and> check_streak_achievement example_env ''t1'' 8 ''Daily Exercise'' example_state
       = (None, example_state)
   \<and> notifications example_state = []
   \<and> length (filter (\<lambda>n. achievement_recorded n ''t1'' 7)
               (notifications (run_achievement_checks example_achievement_calls example_state)))
       \<le> 1"
proof -
  let ?S = "example_state"
  have m7: "(7::int) \<in> {7, 14, 30, 60, 100}" by simp
  have m8: "(8::int) \<notin> {7, 14, 30, 60, 100}" by simp
  have e: "notifications ?S = []" and u: "Suc (uuid_count ?S) = 1" by (simp_all add: example_defs)
  have a: "\<not> (\<exists>n\<in>set (notifications ?S). achievement_recorded n ''t1'' 7)"
    by (simp add: e)
  note T = achievement_created_once_per_milestone
             [of example_env "''t1''" 7 "''Daily Exercise''" ?S example_achievement_calls]
  from T m7 a obtain n where
    n: "fst (check_streak_achievement example_env ''t1'' 7 ''Daily Exercise'' ?S) = Some n"
    by blast
  with T have r: "ntype n = ''achievement''"
    "data n = Some [(''habit_id'', JStr ''t1''), (''habit_title'', JStr ''Daily Exercise''),
                    (''streak'', JInt 7), (''milestone'', JInt 7)]"
    "achievement_recorded n ''t1'' 7"
    by blast+
  let ?S1 = "?S\<lparr> notifications := [n], uuid_count := 1 \<rparr>"
  have "\<exists>k\<in>set (notifications ?S1). achievement_recorded k ''t1'' 7"
    using r(3) by simp
  with achievement_created_once_per_milestone
         [of example_env_next_day "''t1''" 7 "''Daily Exercise''" ?S1]
  have "\<not> (\<exists>k. fst (check_streak_achievement example_env_next_day ''t1'' 7 ''Daily Exercise'' ?S1)
                  = Some k)"
    by blast
  then have c2: "fst (check_streak_achievement example_env_next_day ''t1'' 7 ''Daily Exercise'' ?S1)
                   = None"
    by (cases "fst (check_streak_achievement example_env_next_day ''t1'' 7 ''Daily Exercise'' ?S1)")
       simp_all
  from achievement_created_once_per_milestone
         [of example_env "''t1''" 8 "''Daily Exercise''" ?S] m8
  have c3: "check_streak_achievement example_env ''t1'' 8 ''Daily Exercise'' ?S = (None, ?S)"
    by blast
  from T e have c4: "length (filter (\<lambda>n. achievement_recorded n ''t1'' 7)
               (notifications (run_achievement_checks example_achievement_calls ?S))) \<le> 1"
    by blast
  from a have a': "\<not> list_ex (\<lambda>n. achievement_recorded n ''t1'' 7) (notifications ?S)"
    by (simp add: list_ex_iff)
  from m7 a' n r(1,2) c2 m8 c3 e c4 show ?thesis by blast
qed

text \<open>
  Claim C5. \<open>generate_at_risk_notifications\<close> creates, for every task that is a habit, is
  not deleted, has a positive streak and has a last check-in date other than the server's
  today, exactly one notification naming the habit, unless an at-risk warning for the habit
  exists in the current UTC day, and then none. Every row created is of type
  \<open>habit_reminder\<close>, carries \<open>at_risk = true\<close> and names such a task. With the
  identifiers of the tasks distinct, a task without a streak is never named, and neither is
  a task without a last check-in date: the SQL comparison of a NULL date selects no row.
  Check-ins never produce a task with a streak and no date, so on the states the check-in
  recorder reaches every habit with a streak has a date to compare.
\<close>

theorem at_risk_notifications_generated:
  "(\<forall>t\<in>set (task_cards s).
       is_habit t \<and> \<not> is_deleted t \<and> 0 < current_streak t
       \<and> (\<exists>d. last_checkin_date t = Some d \<and> d \<noteq> date_today e)
       \<longrightarrow> length (filter (\<lambda>n. data_names_habit n (task_card_id t))
                    (fst (generate_at_risk_notifications e s)))
             = (if (\<exists>n\<in>set (notifications s).
                        ntype n = ''habit_reminder''
                        \<and> date_of (notification_created_at n) = date_of (utc_now e)
                        \<and> data_names_habit n (task_card_id t) \<and> data_at_risk n)
                then 0 else 1))
   \<and> (\<forall>n\<in>set (fst (generate_at_risk_notifications e s)).
         ntype n = ''habit_reminder''
         \<and> (\<exists>d. data n = Some d \<and> map_of d ''at_risk'' = Some (JBool True))
         \<and> (\<exists>t\<in>set (task_cards s).
               is_habit t \<and> \<not> is_deleted t \<and> 0 < current_streak t
               \<and> (\<exists>d. last_checkin_date t = Some d \<and> d \<noteq> date_today e)
               \<and> data_names_habit n (task_card_id t)))
   \<and> (distinct (map task_card_id (task_cards s))
       \<longrightarrow> (\<forall>t\<in>set (task_cards s). current_streak t \<le> 0
             \<longrightarrow> \<not> (\<exists>n\<in>set (fst (generate_at_risk_notifications e s)).
                       data_names_habit n (task_card_id t))))
   \<and> (distinct (map task_card_id (task_cards s))
       \<longrightarrow> (\<forall>t\<in>set (task_cards s). last_checkin_date t = None
             \<longrightarrow> \<not> (\<exists>n\<in>set (fst (generate_at_risk_notifications e s)).
                       data_names_habit n (task_card_id t))))
   \<and> notifications (snd (generate_at_risk_notifications e s))
       = notifications s @ fst (generate_at_risk_notifications e s)
   \<and> ((\<forall>t\<in>set (task_cards s). 0 < current_streak t \<longrightarrow> last_checkin_date t \<noteq> None)
       \<longrightarrow> (\<forall>t\<in>set (task_cards (run_checkins calls s)).
              0 < current_streak t \<longrightarrow> last_checkin_date t \<noteq> None))"
proof (intro conjI)
  let ?today = "date_today e"
  let ?G = "generate_at_risk_notifications e s"
  let ?risk = "\<lambda>t. is_habit t \<and> \<not> is_deleted t \<and> 0 < current_streak t
                 \<and> (\<exists>d. last_checkin_date t = Some d \<and> d \<noteq> ?today)"
  have hs: "set (at_risk_habits ?today s) = {t \<in> set (task_cards s). ?risk t}"
    by (rule at_risk_habits_set)
  show "\<forall>t\<in>set (task_cards s). ?risk t
       \<longrightarrow> length (filter (\<lambda>n. data_names_habit n (task_card_id t)) (fst ?G))
             = (if (\<exists>n\<in>set (notifications s).
                        ntype n = ''habit_reminder''
                        \<and> date_of (notification_created_at n) = date_of (utc_now e)
                        \<and> data_names_habit n (task_card_id t) \<and> data_at_risk n)
                then 0 else 1)"
    unfolding check_existing_at_risk_iff [of e _ ?today s, symmetric]
  proof (intro ballI impI)
    fix t
    assume "t \<in> set (task_cards s)" and "?risk t"
    then have "t \<in> set (at_risk_habits ?today s)" unfolding hs by simp
    then have "task_card_id t \<in> set (map task_card_id (at_risk_habits ?today s))" by simp
    then show "length (filter (\<lambda>n. data_names_habit n (task_card_id t)) (fst ?G))
             = (if check_existing_at_risk e (task_card_id t) ?today s then 0 else 1)"
      unfolding generate_at_risk_unfold at_risk_loop_count by simp
  qed
  show rows: "\<forall>n\<in>set (fst ?G).
         ntype n = ''habit_reminder''
         \<and> (\<exists>d. data n = Some d \<and> map_of d ''at_risk'' = Some (JBool True))
         \<and> (\<exists>t\<in>set (task_cards s).
               is_habit t \<and> \<not> is_deleted t \<and> 0 < current_streak t
               \<and> (\<exists>d. last_checkin_date t = Some d \<and> d \<noteq> ?today)
               \<and> data_names_habit n (task_card_id t))"
  proof
    fix n
    assume "n \<in> set (fst ?G)"
    then have "n \<in> set (fst (at_risk_loop e ?today (at_risk_habits ?today s) [] s))"
      by (simp add: generate_at_risk_unfold)
    from at_risk_loop_rows [OF this]
    show "ntype n = ''habit_reminder''
         \<and> (\<exists>d. data n = Some d \<and> map_of d ''at_risk'' = Some (JBool True))
         \<and> (\<exists>t\<in>set (task_cards s).
               is_habit t \<and> \<not> is_deleted t \<and> 0 < current_streak t
               \<and> (\<exists>d. last_checkin_date t = Some d \<and> d \<noteq> ?today)
               \<and> data_names_habit n (task_card_id t))"
      unfolding hs by blast
  qed
  have never: "\<not> (\<exists>n\<in>set (fst ?G). data_names_habit n (task_card_id t))"
    if d: "distinct (map task_card_id (task_cards s))" and t: "t \<in> set (task_cards s)"
      and nr: "\<not> ?risk t" for t
  proof
    assume "\<exists>n\<in>set (fst ?G). data_names_habit n (task_card_id t)"
    then obtain n where n: "n \<in> set (fst ?G)" and nt: "data_names_habit n (task_card_id t)"
      by blast
    from rows n obtain t' where t': "t' \<in> set (task_cards s)" and r: "?risk t'"
      and nt': "data_names_habit n (task_card_id t')"
      by blast
    have "task_card_id t' = task_card_id t"
      by (rule data_names_habit_unique [OF nt' nt])
    then have "t' = t" by (rule distinct_map_eq [OF d t' t])
    with r nr show False by blast
  qed
  show "distinct (map task_card_id (task_cards s))
       \<longrightarrow> (\<forall>t\<in>set (task_cards s). current_streak t \<le> 0
             \<longrightarrow> \<not> (\<exists>n\<in>set (fst ?G). data_names_habit n (task_card_id t)))"
    using never by force
  show "distinct (map task_card_id (task_cards s))
       \<longrightarrow> (\<forall>t\<in>set (task_cards s). last_checkin_date t = None
             \<longrightarrow> \<not> (\<exists>n\<in>set (fst ?G). data_names_habit n (task_card_id t)))"
    using never by force
  show "notifications (snd ?G) = notifications s @ fst ?G"
    unfolding generate_at_risk_unfold by (rule at_risk_loop_notifications)
  show "(\<forall>t\<in>set (task_cards s). 0 < current_streak t \<longrightarrow> last_checkin_date t \<noteq> None)
       \<longrightarrow> (\<forall>t\<in>set (task_cards (run_checkins calls s)).
              0 < current_streak t \<longrightarrow> last_checkin_date t \<noteq> None)"
  proof
    assume "\<forall>t\<in>set (task_cards s). 0 < current_streak t \<longrightarrow> last_checkin_date t \<noteq> None"
    then show "\<forall>t\<in>set (task_cards (run_checkins calls s)).
              0 < current_streak t \<longrightarrow> last_checkin_date t \<noteq> None"
      by (rule run_checkins_keeps_tasks) (simp add: update_streak_fields)
  qed
qed

theorem at_risk_notifications_generated_witness:
  "list_all (\<lambda>t. is_habit t \<and> \<not> is_deleted t) (task_cards example_state_at_risk)
   \<and> 0 < current_streak example_habit_yesterday
   \<and> last_checkin_date example_habit_yesterday = Some 738885
   \<and> (738885::int) \<noteq> date_today example_env
   \<and> \<not> check_existing_at_risk example_env ''t3'' (date_today example_env) example_state_at_risk
   \<and> length (filter (\<lambda>n. data_names_habit n ''t3'')
               (fst (generate_at_risk_notifications example_env example_state_at_risk))) = 1
   \<and> list_all (\<lambda>n. ntype n = ''habit_reminder'' \<and> data_at_risk n)
        (fst (generate_at_risk_notifications example_env example_state_at_risk))
   \<and> distinct (map task_card_id (task_cards example_state_at_risk))
   \<and> current_streak example_habit_idle \<le> 0
   \<and> \<not> list_ex (\<lambda>n. data_names_habit n ''t4'')
           (fst (generate_at_risk_notifications example_env example_state_at_risk))
   \<and> list_all (\<lambda>t. 0 < current_streak t \<and> last_checkin_date t \<noteq> None
                    \<or> \<not> 0 < current_streak t)
        (task_cards (run_checkins example_calls example_state))"
proof -
  let ?S = "example_state_at_risk"
  let ?G = "generate_at_risk_notifications example_env ?S"
  have t3: "example_habit_yesterday \<in> set (task_cards ?S)"
    and t4: "example_habit_idle \<in> set (task_cards ?S)"
    by (simp_all add: example_defs)
  have i3: "task_card_id example_habit_yesterday = ''t3''"
    and i4: "task_card_id example_habit_idle = ''t4''"
    by (simp_all add: example_defs)
  have h0: "list_all (\<lambda>t. is_habit t \<and> \<not> is_deleted t) (task_cards ?S)"
    by (simp add: example_defs)
  have h1: "is_habit example_habit_yesterday \<and> \<not> is_deleted example_habit_yesterday"
    by (simp add: example_defs)
  have h2: "0 < current_streak example_habit_yesterday"
    by (simp add: example_defs)
  have h3: "last_checkin_date example_habit_yesterday = Some 738885"
    by (simp add: example_defs)
  have h4: "(738885::int) \<noteq> date_today example_env"
    by (simp add: example_defs)
  have h5: "\<not> check_existing_at_risk example_env ''t3'' (date_today example_env) ?S"
    by (simp add: check_existing_at_risk_def notifications_of_utc_day_def example_defs)
  have h6: "distinct (map task_card_id (task_cards ?S))"
    by (simp add: example_defs)
  have h7: "current_streak example_habit_idle \<le> 0"
    by (simp add: example_defs)
  have h8: "\<forall>t\<in>set (task_cards example_state). 0 < current_streak t \<longrightarrow> last_checkin_date t \<noteq> None"
    by (simp add: example_defs)
  note T = at_risk_notifications_generated [of ?S example_env example_calls]
  from T [THEN conjunct1] t3
  have "is_habit example_habit_yesterday \<and> \<not> is_deleted example_habit_yesterday
        \<and> 0 < current_streak example_habit_yesterday
        \<and> (\<exists>d. last_checkin_date example_habit_yesterday = Some d \<and> d \<noteq> date_today example_env)
        \<longrightarrow> length (filter (\<lambda>n. data_names_habit n (task_card_id example_habit_yesterday)) (fst ?G))
              = (if check_existing_at_risk example_env (task_card_id example_habit_yesterday)
                      (date_today example_env) ?S then 0 else 1)"
    unfolding check_existing_at_risk_iff by (rule bspec)
  with h1 h2 h3 h4 h5 have c1:
    "length (filter (\<lambda>n. data_names_habit n ''t3'') (fst ?G)) = 1"
    by (simp add: i3)
  from T have c2: "\<forall>n\<in>set (fst ?G). ntype n = ''habit_reminder''
         \<and> (\<exists>d. data n = Some d \<and> map_of d ''at_risk'' = Some (JBool True))"
    by blast
  then have c2': "list_all (\<lambda>n. ntype n = ''habit_reminder'' \<and> data_at_risk n) (fst ?G)"
    unfolding list_all_iff by (auto simp add: data_at_risk_def dict_get_def)
  from T h6 t4 h7 have c3: "\<not> (\<exists>n\<in>set (fst ?G). data_names_habit n ''t4'')"
    unfolding i4 [symmetric] by blast
  then have c3': "\<not> list_ex (\<lambda>n. data_names_habit n ''t4'') (fst ?G)"
    by (simp add: list_ex_iff)
  from at_risk_notifications_generated [of example_state example_env example_calls] h8
  have c4: "\<forall>t\<in>set (task_cards (run_checkins example_calls example_state)).
              0 < current_streak t \<longrightarrow> last_checkin_date t \<noteq> None"
    by blast
  then have c4': "list_all (\<lambda>t. 0 < current_streak t \<and> last_checkin_date t \<noteq> None
                    \<or> \<not> 0 < current_streak t)
        (task_cards (run_checkins example_calls example_state))"
    unfolding list_all_iff by blast
  from h0 h2 h3 h4 h5 c1 c2' h6 h7 c3' c4' show ?thesis by blast
qed

text \<open>
  Claim C6. \<open>check_daily_complete\<close> creates a notification exactly when there is an
  active habit, the last check-in date of every active habit is the server's today, and no
  \<open>daily_complete\<close> notification of the current UTC day exists. The row created is of
  type \<open>daily_complete\<close> and carries the number of active habits and the date; when
  nothing is created the state is unchanged, and without an active habit, or with one whose
  last check-in date is not today, the function returns nothing. The active habits are the
  tasks that are habits and are not deleted.
\<close>

theorem check_daily_complete_creates_iff:
  "((\<exists>n. fst (check_daily_complete e s) = Inr (Some n)) \<longleftrightarrow>
       active_habits s \<noteq> []
       \<and> (\<forall>habit\<in>set (active_habits s). last_checkin_date habit = Some (date_today e))
       \<and> \<not> (\<exists>n\<in>set (notifications s).
               ntype n = ''daily_complete''
               \<and> date_of (notification_created_at n) = date_of (utc_now e)))
   \<and> (\<forall>n. fst (check_daily_complete e s) = Inr (Some n) \<longrightarrow>
         ntype n = ''daily_complete''
         \<and> data n = Some [(''completed_count'', JInt (int (length (active_habits s)))),
                          (''date'', JStr (isoformat (date_today e)))]
         \<and> notification_created_at n = utc_now e
         \<and> snd (check_daily_complete e s)
             = s\<lparr> notifications := notifications s @ [n], uuid_count := Suc (uuid_count s) \<rparr>)
   \<and> (\<not> (\<exists>n. fst (check_daily_complete e s) = Inr (Some n))
       \<longrightarrow> snd (check_daily_complete e s) = s)
   \<and> (active_habits s = []
        \<or> (\<exists>habit\<in>set (active_habits s). last_checkin_date habit \<noteq> Some (date_today e))
       \<longrightarrow> check_daily_complete e s = (Inr None, s))
   \<and> set (active_habits s) = {t \<in> set (task_cards s). is_habit t \<and> \<not> is_deleted t}"
proof (intro conjI)
  show "(\<exists>n. fst (check_daily_complete e s) = Inr (Some n)) \<longleftrightarrow>
       active_habits s \<noteq> []
       \<and> (\<forall>habit\<in>set (active_habits s). last_checkin_date habit = Some (date_today e))
       \<and> \<not> (\<exists>n\<in>set (notifications s).
               ntype n = ''daily_complete''
               \<and> date_of (notification_created_at n) = date_of (utc_now e))"
    unfolding check_existing_daily_complete_False [of e "date_today e" s, symmetric]
    by (auto simp add: check_daily_complete_cases list_all_iff split: sum.splits bool.splits)
next
  show "\<forall>n. fst (check_daily_complete e s) = Inr (Some n) \<longrightarrow>
         ntype n = ''daily_complete''
         \<and> data n = Some [(''completed_count'', JInt (int (length (active_habits s)))),
                          (''date'', JStr (isoformat (date_today e)))]
         \<and> notification_created_at n = utc_now e
         \<and> snd (check_daily_complete e s)
             = s\<lparr> notifications := notifications s @ [n], uuid_count := Suc (uuid_count s) \<rparr>"
  proof (intro allI impI)
    fix n
    assume "fst (check_daily_complete e s) = Inr (Some n)"
    then have "n = fst (create_daily_complete e (active_habits s) (date_today e) s)
               \<and> snd (check_daily_complete e s)
                   = snd (create_daily_complete e (active_habits s) (date_today e) s)"
      by (auto simp add: check_daily_complete_cases split: if_splits sum.splits bool.splits)
    then show "ntype n = ''daily_complete''
           \<and> data n = Some [(''completed_count'', JInt (int (length (active_habits s)))),
                            (''date'', JStr (isoformat (date_today e)))]
           \<and> notification_created_at n = utc_now e
           \<and> snd (check_daily_complete e s)
               = s\<lparr> notifications := notifications s @ [n], uuid_count := Suc (uuid_count s) \<rparr>"
      using create_daily_complete_row [of e "active_habits s" "date_today e" s] by simp
  qed
next
  show "\<not> (\<exists>n. fst (check_daily_complete e s) = Inr (Some n))
       \<longrightarrow> snd (check_daily_complete e s) = s"
    by (auto simp add: check_daily_complete_cases split: if_splits sum.splits bool.splits)
next
  show "active_habits s = []
        \<or> (\<exists>habit\<in>set (active_habits s). last_checkin_date habit \<noteq> Some (date_today e))
       \<longrightarrow> check_daily_complete e s = (Inr None, s)"
    by (auto simp add: check_daily_complete_cases list_all_iff)
next
  show "set (active_habits s) = {t \<in> set (task_cards s). is_habit t \<and> \<not> is_deleted t}"
    by (rule active_habits_set)
qed

theorem check_daily_complete_creates_iff_witness:
  "active_habits example_state_checked_in \<noteq> []
   \<and> list_all (\<lambda>habit. last_checkin_date habit = Some (date_today example_env))
        (active_habits example_state_checked_in)
   \<and> \<not> list_ex (\<lambda>n. ntype n = ''daily_complete''
                      \<and> date_of (notification_created_at n) = date_of (utc_now example_env))
         (notifications example_state_checked_in)
   \<and> (\<exists>n. fst (check_daily_complete example_env example_state_checked_in) = Inr (Some n)
          \<and> ntype n = ''daily_complete''
          \<and> data n = Some [(''completed_count'', JInt 1), (''date'', JStr ''2024-01-01'')]
          \<and> snd (check_daily_complete example_env example_state_checked_in)
              = example_state_checked_in\<lparr> notifications := [n], uuid_count := 2 \<rparr>)
   \<and> list_ex (\<lambda>habit. last_checkin_date habit \<noteq> Some (date_today example_env))
        (active_habits example_state)
   \<and> check_daily_complete example_env example_state = (Inr None, example_state)
   \<and> list_ex (\<lambda>n. ntype n = ''daily_complete''
                    \<and> date_of (notification_created_at n) = date_of (utc_now example_env))
        (notifications (example_state_checked_in\<lparr> notifications :=
            [posted_daily_complete ''n1'' 63839692800000000] \<rparr>))
   \<and> snd (check_daily_complete example_env (example_state_checked_in\<lparr> notifications :=
            [posted_daily_complete ''n1'' 63839692800000000] \<rparr>))
       = example_state_checked_in\<lparr> notifications :=
            [posted_daily_complete ''n1'' 63839692800000000] \<rparr>"
proof -
  let ?S = "example_state_checked_in"
  let ?P = "example_state_checked_in\<lparr> notifications :=
            [posted_daily_complete ''n1'' 63839692800000000] \<rparr>"
  have a1: "active_habits ?S \<noteq> []"
    by (simp add: active_habits_def example_defs)
  have a2: "\<forall>habit\<in>set (active_habits ?S). last_checkin_date habit = Some (date_today example_env)"
    by (simp add: active_habits_def example_defs)
  have a3: "\<not> (\<exists>n\<in>set (notifications ?S). ntype n = ''daily_complete''
               \<and> date_of (notification_created_at n) = date_of (utc_now example_env))"
    by (simp add: example_defs)
  have len: "int (length (active_habits ?S)) = 1"
    by (simp add: active_habits_def example_defs)
  have iso: "isoformat (date_today example_env) = ''2024-01-01''"
    by (simp add: example_defs isoformat_def ord2ymd_def days_before_month_def days_in_month_def
          zero_pad_def Let_def str_nat.simps digit_char_def)
  have ns: "notifications ?S = []" "Suc (uuid_count ?S) = 2"
    by (simp_all add: example_defs)
  note T = check_daily_complete_creates_iff [of example_env ?S, unfolded len iso]
  from T a1 a2 a3 obtain n where n: "fst (check_daily_complete example_env ?S) = Inr (Some n)"
    by blast
  with T have c1: "ntype n = ''daily_complete''
          \<and> data n = Some [(''completed_count'', JInt 1), (''date'', JStr ''2024-01-01'')]
          \<and> snd (check_daily_complete example_env ?S)
              = ?S\<lparr> notifications := notifications ?S @ [n], uuid_count := Suc (uuid_count ?S) \<rparr>"
    by blast
  have b1: "\<exists>habit\<in>set (active_habits example_state).
              last_checkin_date habit \<noteq> Some (date_today example_env)"
    by (simp add: active_habits_def example_defs)
  from check_daily_complete_creates_iff [of example_env example_state] b1
  have c2: "check_daily_complete example_env example_state = (Inr None, example_state)"
    by blast
  have b2: "\<exists>n\<in>set (notifications ?P). ntype n = ''daily_complete''
               \<and> date_of (notification_created_at n) = date_of (utc_now example_env)"
    by (simp add: example_defs time_defs)
  note U = check_daily_complete_creates_iff [of example_env ?P]
  from U b2 have "\<not> (\<exists>n. fst (check_daily_complete example_env ?P) = Inr (Some n))"
    by blast
  with U have c3: "snd (check_daily_complete example_env ?P) = ?P"
    by blast
  from a1 a2 a3 n c1 b1 c2 b2 c3 show ?thesis
    unfolding list_all_iff list_ex_iff ns by (simp only: append_Nil) blast
qed

text \<open>
  Claim C9. The three generators deduplicate over the UTC day of the current instant.
  For a habit due a reminder, \<open>generate_habit_reminders\<close> creates one reminder, and none
  exactly when a reminder for the habit was created in the UTC day of now; the same holds
  for \<open>generate_at_risk_notifications\<close> and the at-risk warnings; and with all active
  habits done, \<open>check_daily_complete\<close> creates its notification exactly when no
  \<open>daily_complete\<close> notification was created in the UTC day of now. The three existence
  checks behind them select the rows whose creation time lies in that day, from its
  midnight up to the next, and do not use the date they are passed: neither the client's
  local day nor the server's plays a part in the window.
\<close>

theorem dedup_window_is_utc_day:
  "(\<forall>t\<in>set (task_cards s).
       is_habit t \<and> \<not> is_deleted t \<and> last_checkin_date t \<noteq> Some (date_today e)
       \<and> current_streak t \<le> 0
       \<longrightarrow> length (filter (\<lambda>n. data_names_habit n (task_card_id t))
                    (fst (generate_habit_reminders e s)))
             = (if (\<exists>n\<in>set (notifications s).
                    ntype n = ''habit_reminder''
                    \<and> date_of (notification_created_at n) = date_of (utc_now e)
                    \<and> data_names_habit n (task_card_id t) \<and> \<not> data_at_risk n)
                then 0 else 1))
   \<and> (\<forall>t\<in>set (task_cards s).
       is_habit t \<and> \<not> is_deleted t \<and> 0 < current_streak t
       \<and> (\<exists>d. last_checkin_date t = Some d \<and> d \<noteq> date_today e)
       \<longrightarrow> length (filter (\<lambda>n. data_names_habit n (task_card_id t))
                    (fst (generate_at_risk_notifications e s)))
             = (if (\<exists>n\<in>set (notifications s).
                    ntype n = ''habit_reminder''
                    \<and> date_of (notification_created_at n) = date_of (utc_now e)
                    \<and> data_names_habit n (task_card_id t) \<and> data_at_risk n)
                then 0 else 1))
   \<and> (active_habits s \<noteq> []
       \<and> (\<forall>habit\<in>set (active_habits s). last_checkin_date habit = Some (date_today e))
       \<longrightarrow> ((\<exists>n. fst (check_daily_complete e s) = Inr (Some n)) \<longleftrightarrow>
              \<not> (\<exists>n\<in>set (notifications s).
                      ntype n = ''daily_complete''
                      \<and> date_of (notification_created_at n) = date_of (utc_now e))))
   \<and> (check_existing_reminder e habit_id today s \<longleftrightarrow>
      (\<exists>n\<in>set (notifications s).
          ntype n = ''habit_reminder''
          \<and> date_of (notification_created_at n) = date_of (utc_now e)
          \<and> data_names_habit n habit_id \<and> \<not> data_at_risk n))
   \<and> (check_existing_at_risk e habit_id today s \<longleftrightarrow>
      (\<exists>n\<in>set (notifications s).
          ntype n = ''habit_reminder''
          \<and> date_of (notification_created_at n) = date_of (utc_now e)
          \<and> data_names_habit n habit_id \<and> data_at_risk n))
   \<and> (check_existing_daily_complete e today s \<noteq> Inr False \<longleftrightarrow>
      (\<exists>n\<in>set (notifications s).
          ntype n = ''daily_complete''
          \<and> date_of (notification_created_at n) = date_of (utc_now e)))
   \<and> (date_of (utc_now e') = date_of (utc_now e) \<longrightarrow>
        check_existing_reminder e' habit_id today' s = check_existing_reminder e habit_id today s
        \<and> check_existing_at_risk e' habit_id today' s = check_existing_at_risk e habit_id today s
        \<and> check_existing_daily_complete e' today' s = check_existing_daily_complete e today s)
   \<and> (date_of c = date_of (utc_now e) \<longleftrightarrow>
        start_of_day (utc_now e) \<le> c \<and> c < start_of_day (utc_now e) + US_PER_DAY)
   \<and> start_of_day (utc_now e) mod US_PER_DAY = 0"
proof (intro conjI impI)
  show "(\<forall>t\<in>set (task_cards s).
       is_habit t \<and> \<not> is_deleted t \<and> last_checkin_date t \<noteq> Some (date_today e)
       \<and> current_streak t \<le> 0
       \<longrightarrow> length (filter (\<lambda>n. data_names_habit n (task_card_id t))
                    (fst (generate_habit_reminders e s)))
             = (if (\<exists>n\<in>set (notifications s).
                    ntype n = ''habit_reminder''
                    \<and> date_of (notification_created_at n) = date_of (utc_now e)
                    \<and> data_names_habit n (task_card_id t) \<and> \<not> data_at_risk n)
                then 0 else 1))"
  proof (intro ballI impI)
    fix t
    assume t: "t \<in> set (task_cards s)"
      and a: "is_habit t \<and> \<not> is_deleted t \<and> last_checkin_date t \<noteq> Some (date_today e)
              \<and> current_streak t \<le> 0"
    then have "\<not> 0 < current_streak t" by simp
    with t a show "length (filter (\<lambda>n. data_names_habit n (task_card_id t))
                    (fst (generate_habit_reminders e s)))
             = (if (\<exists>n\<in>set (notifications s).
                    ntype n = ''habit_reminder''
                    \<and> date_of (notification_created_at n) = date_of (utc_now e)
                    \<and> data_names_habit n (task_card_id t) \<and> \<not> data_at_risk n)
                then 0 else 1)"
      unfolding check_existing_reminder_iff [of e "task_card_id t" "date_today e" s, symmetric]
      by (intro generate_habit_reminders_count) simp_all
  qed
  show "(\<forall>t\<in>set (task_cards s).
       is_habit t \<and> \<not> is_deleted t \<and> 0 < current_streak t
       \<and> (\<exists>d. last_checkin_date t = Some d \<and> d \<noteq> date_today e)
       \<longrightarrow> length (filter (\<lambda>n. data_names_habit n (task_card_id t))
                    (fst (generate_at_risk_notifications e s)))
             = (if (\<exists>n\<in>set (notifications s).
                    ntype n = ''habit_reminder''
                    \<and> date_of (notification_created_at n) = date_of (utc_now e)
                    \<and> data_names_habit n (task_card_id t) \<and> data_at_risk n)
                then 0 else 1))"
  proof (intro ballI impI)
    fix t
    assume t: "t \<in> set (task_cards s)"
      and a: "is_habit t \<and> \<not> is_deleted t \<and> 0 < current_streak t
              \<and> (\<exists>d. last_checkin_date t = Some d \<and> d \<noteq> date_today e)"
    then obtain d where d: "last_checkin_date t = Some d" "d \<noteq> date_today e" by blast
    from t a d show "length (filter (\<lambda>n. data_names_habit n (task_card_id t))
                    (fst (generate_at_risk_notifications e s)))
             = (if (\<exists>n\<in>set (notifications s).
                    ntype n = ''habit_reminder''
                    \<and> date_of (notification_created_at n) = date_of (utc_now e)
                    \<and> data_names_habit n (task_card_id t) \<and> data_at_risk n)
                then 0 else 1)"
      unfolding check_existing_at_risk_iff [of e "task_card_id t" "date_today e" s, symmetric]
      by (intro generate_at_risk_count) simp_all
  qed

  show "date_of c = date_of (utc_now e) \<longleftrightarrow>
        start_of_day (utc_now e) \<le> c \<and> c < start_of_day (utc_now e) + US_PER_DAY"
    by (simp add: utc_day_window)
  show "start_of_day (utc_now e) mod US_PER_DAY = 0"
    by (simp add: start_of_day_def)
  show "check_existing_reminder e habit_id today s \<longleftrightarrow>
      (\<exists>n\<in>set (notifications s).
          ntype n = ''habit_reminder''
          \<and> date_of (notification_created_at n) = date_of (utc_now e)
          \<and> data_names_habit n habit_id \<and> \<not> data_at_risk n)"
    by (auto simp add: check_existing_reminder_def notifications_of_utc_day_eq list_ex_iff)
  show "check_existing_at_risk e habit_id today s \<longleftrightarrow>
      (\<exists>n\<in>set (notifications s).
          ntype n = ''habit_reminder''
          \<and> date_of (notification_created_at n) = date_of (utc_now e)
          \<and> data_names_habit n habit_id \<and> data_at_risk n)"
    by (auto simp add: check_existing_at_risk_def notifications_of_utc_day_eq list_ex_iff)
  show "check_existing_daily_complete e today s \<noteq> Inr False \<longleftrightarrow>
      (\<exists>n\<in>set (notifications s).
          ntype n = ''daily_complete''
          \<and> date_of (notification_created_at n) = date_of (utc_now e))"
  proof -
    have "check_existing_daily_complete e today s \<noteq> Inr False
            \<longleftrightarrow> notifications_of_utc_day e ''daily_complete'' s \<noteq> []"
      by (cases "notifications_of_utc_day e ''daily_complete'' s" rule: scalar_one_or_none.cases)
         (simp_all add: check_existing_daily_complete_def)
    then show ?thesis
      by (auto simp add: notifications_of_utc_day_eq filter_empty_conv)
  qed
next
  assume d: "date_of (utc_now e') = date_of (utc_now e)"
  then have "\<And>ty. notifications_of_utc_day e' ty s = notifications_of_utc_day e ty s"
    by (simp add: notifications_of_utc_day_eq)
  then show "check_existing_reminder e' habit_id today' s = check_existing_reminder e habit_id today s"
    and "check_existing_at_risk e' habit_id today' s = check_existing_at_risk e habit_id today s"
    and "check_existing_daily_complete e' today' s = check_existing_daily_complete e today s"
    by (simp_all add: check_existing_reminder_def check_existing_at_risk_def
          check_existing_daily_complete_def)
next
  assume "active_habits s \<noteq> []
       \<and> (\<forall>habit\<in>set (active_habits s). last_checkin_date habit = Some (date_today e))"
  then show "(\<exists>n. fst (check_daily_complete e s) = Inr (Some n)) \<longleftrightarrow>
              \<not> (\<exists>n\<in>set (notifications s).
                      ntype n = ''daily_complete''
                      \<and> date_of (notification_created_at n) = date_of (utc_now e))"
    unfolding check_existing_daily_complete_False [of e "date_today e" s, symmetric]
    by (auto simp add: check_daily_complete_cases list_all_iff split: sum.splits bool.splits)
qed

theorem dedup_window_is_utc_day_witness:
  "get_local_date (utc_now example_env_evening) (Some (- 480)) = Inr 738887
   \<and> date_of (utc_now example_env_evening) = 738886
   \<and> date_of (utc_now example_env_next_day) = 738887
   \<and> example_habit \<in> set (task_cards example_state_reminded)
   \<and> is_habit example_habit \<and> \<not> is_deleted example_habit
   \<and> last_checkin_date example_habit \<noteq> Some 738886 \<and> current_streak example_habit \<le> 0
   \<and> length (filter (\<lambda>n. data_names_habit n ''t1'')
               (fst (generate_habit_reminders example_env_evening example_state_reminded))) = 0
   \<and> length (filter (\<lambda>n. data_names_habit n ''t1'')
               (fst (generate_habit_reminders example_env_next_day example_state_reminded))) = 1
   \<and> example_habit_yesterday \<in> set (task_cards example_state_warned)
   \<and> is_habit example_habit_yesterday \<and> \<not> is_deleted example_habit_yesterday
   \<and> 0 < current_streak example_habit_yesterday
   \<and> last_checkin_date example_habit_yesterday = Some 738885
   \<and> length (filter (\<lambda>n. data_names_habit n ''t3'')
               (fst (generate_at_risk_notifications example_env_evening example_state_warned))) = 0
   \<and> length (filter (\<lambda>n. data_names_habit n ''t3'')
               (fst (generate_at_risk_notifications example_env_next_day example_state_warned))) = 1
   \<and> active_habits example_state_done_posted = [example_habit_checked_in]
   \<and> last_checkin_date example_habit_checked_in = Some 738886
   \<and> date_today example_env_utc_ahead = 738886
   \<and> date_of (utc_now example_env_utc_ahead) = 738887
   \<and> \<not> (\<exists>n. fst (check_daily_complete example_env_evening example_state_done_posted)
                = Inr (Some n))
   \<and> (\<exists>n. fst (check_daily_complete example_env_utc_ahead example_state_done_posted)
             = Inr (Some n))
   \<and> check_existing_reminder example_env_evening ''t1'' 738887 example_state_reminded
   \<and> check_existing_at_risk example_env_evening ''t1'' 738887 example_state_reminded
   \<and> check_existing_daily_complete example_env_evening 738887 example_state_reminded
        \<noteq> Inr False
   \<and> \<not> check_existing_reminder example_env_next_day ''t1'' 738887 example_state_reminded
   \<and> date_of (utc_now example_env_later) = date_of (utc_now example_env)
   \<and> check_existing_at_risk example_env_later ''t1'' 738887 example_state_reminded
        = check_existing_at_risk example_env ''t1'' 738886 example_state_reminded"
proof -
  let ?R = "example_state_reminded"
  let ?W = "example_state_warned"
  let ?D = "example_state_done_posted"
  have l1: "get_local_date (utc_now example_env_evening) (Some (- 480)) = Inr 738887"
    by (simp add: example_defs time_defs)
  have l2: "date_of (utc_now example_env_evening) = 738886"
    by (simp add: example_defs time_defs)
  have l3: "date_of (utc_now example_env_next_day) = 738887"
    by (simp add: example_defs time_defs)
  have l4: "date_of (utc_now example_env_utc_ahead) = 738887"
    by (simp add: example_defs time_defs)
  have d: "date_of (utc_now example_env_later) = date_of (utc_now example_env)"
    by (simp add: example_defs time_defs)
  have dt: "date_today example_env_evening = 738886" "date_today example_env_next_day = 738887"
    "date_today example_env_utc_ahead = 738886"
    by (simp_all add: example_defs)
  note T = dedup_window_is_utc_day [where e = example_env_evening and s = ?R
             and habit_id = "''t1''" and today = 738887 and e' = example_env_evening]
  note N = dedup_window_is_utc_day [where e = example_env_next_day and s = ?R
             and habit_id = "''t1''" and today = 738887 and e' = example_env_next_day]
  note L = dedup_window_is_utc_day [where e = example_env and s = ?R
             and habit_id = "''t1''" and today = 738886 and e' = example_env_later
             and today' = 738887]
  txt \<open>The reminders.\<close>
  have r0: "example_habit \<in> set (task_cards ?R)"
    by (simp add: example_defs)
  have r1: "is_habit example_habit \<and> \<not> is_deleted example_habit"
    by (simp add: example_defs)
  have r2: "last_checkin_date example_habit \<noteq> Some 738886"
    "last_checkin_date example_habit \<noteq> Some 738887" "current_streak example_habit \<le> 0"
    "task_card_id example_habit = ''t1''"
    by (simp_all add: example_defs)
  have b1: "\<exists>n\<in>set (notifications ?R).
          ntype n = ''habit_reminder''
          \<and> date_of (notification_created_at n) = date_of (utc_now example_env_evening)
          \<and> data_names_habit n ''t1'' \<and> \<not> data_at_risk n"
    by (simp add: example_defs time_defs data_names_habit_def data_at_risk_def dict_get_def)
  have b2: "\<exists>n\<in>set (notifications ?R).
          ntype n = ''habit_reminder''
          \<and> date_of (notification_created_at n) = date_of (utc_now example_env_evening)
          \<and> data_names_habit n ''t1'' \<and> data_at_risk n"
    by (simp add: example_defs time_defs data_names_habit_def data_at_risk_def dict_get_def)
  have b3: "\<exists>n\<in>set (notifications ?R).
          ntype n = ''daily_complete''
          \<and> date_of (notification_created_at n) = date_of (utc_now example_env_evening)"
    by (simp add: example_defs time_defs)
  have b4: "\<not> (\<exists>n\<in>set (notifications ?R).
          ntype n = ''habit_reminder''
          \<and> date_of (notification_created_at n) = date_of (utc_now example_env_next_day)
          \<and> data_names_habit n ''t1'' \<and> \<not> data_at_risk n)"
    by (simp add: example_defs time_defs)
  from T [THEN conjunct1] r0
  have "is_habit example_habit \<and> \<not> is_deleted example_habit
        \<and> last_checkin_date example_habit \<noteq> Some (date_today example_env_evening)
        \<and> current_streak example_habit \<le> 0
        \<longrightarrow> length (filter (\<lambda>n. data_names_habit n (task_card_id example_habit))
                     (fst (generate_habit_reminders example_env_evening ?R)))
              = (if (\<exists>n\<in>set (notifications ?R).
                       ntype n = ''habit_reminder''
                       \<and> date_of (notification_created_at n) = date_of (utc_now example_env_evening)
                       \<and> data_names_habit n (task_card_id example_habit) \<and> \<not> data_at_risk n)
                 then 0 else 1)"
    by (rule bspec)
  with r1 r2 b1 have g1: "length (filter (\<lambda>n. data_names_habit n ''t1'')
               (fst (generate_habit_reminders example_env_evening ?R))) = 0"
    by (simp add: dt)
  from N [THEN conjunct1] r0
  have "is_habit example_habit \<and> \<not> is_deleted example_habit
        \<and> last_checkin_date example_habit \<noteq> Some (date_today example_env_next_day)
        \<and> current_streak example_habit \<le> 0
        \<longrightarrow> length (filter (\<lambda>n. data_names_habit n (task_card_id example_habit))
                     (fst (generate_habit_reminders example_env_next_day ?R)))
              = (if (\<exists>n\<in>set (notifications ?R).
                       ntype n = ''habit_reminder''
                       \<and> date_of (notification_created_at n) = date_of (utc_now example_env_next_day)
                       \<and> data_names_habit n (task_card_id example_habit) \<and> \<not> data_at_risk n)
                 then 0 else 1)"
    by (rule bspec)
  with r1 r2 b4 have g2: "length (filter (\<lambda>n. data_names_habit n ''t1'')
               (fst (generate_habit_reminders example_env_next_day ?R))) = 1"
    by (simp add: dt)
  txt \<open>The at-risk warnings.\<close>
  note TW = dedup_window_is_utc_day [where e = example_env_evening and s = ?W]
  note NW = dedup_window_is_utc_day [where e = example_env_next_day and s = ?W]
  have w0: "example_habit_yesterday \<in> set (task_cards ?W)"
    by (simp add: example_defs)
  have w1: "is_habit example_habit_yesterday \<and> \<not> is_deleted example_habit_yesterday"
    by (simp add: example_defs)
  have w2: "0 < current_streak example_habit_yesterday"
    "last_checkin_date example_habit_yesterday = Some 738885"
    "task_card_id example_habit_yesterday = ''t3''"
    by (simp_all add: example_defs)
  have w3: "\<exists>n\<in>set (notifications ?W).
          ntype n = ''habit_reminder''
          \<and> date_of (notification_created_at n) = date_of (utc_now example_env_evening)
          \<and> data_names_habit n ''t3'' \<and> data_at_risk n"
    by (simp add: example_defs time_defs data_names_habit_def data_at_risk_def dict_get_def)
  have w4: "\<not> (\<exists>n\<in>set (notifications ?W).
          ntype n = ''habit_reminder''
          \<and> date_of (notification_created_at n) = date_of (utc_now example_env_next_day)
          \<and> data_names_habit n ''t3'' \<and> data_at_risk n)"
    by (simp add: example_defs time_defs)
  from TW [THEN conjunct2, THEN conjunct1] w0
  have "is_habit example_habit_yesterday \<and> \<not> is_deleted example_habit_yesterday
        \<and> 0 < current_streak example_habit_yesterday
        \<and> (\<exists>d. last_checkin_date example_habit_yesterday = Some d
                \<and> d \<noteq> date_today example_env_evening)
        \<longrightarrow> length (filter (\<lambda>n. data_names_habit n (task_card_id example_habit_yesterday))
                     (fst (generate_at_risk_notifications example_env_evening ?W)))
              = (if (\<exists>n\<in>set (notifications ?W).
                       ntype n = ''habit_reminder''
                       \<and> date_of (notification_created_at n) = date_of (utc_now example_env_evening)
                       \<and> data_names_habit n (task_card_id example_habit_yesterday)
                       \<and> data_at_risk n)
                 then 0 else 1)"
    by (rule bspec)
  with w1 w2 w3 have g3: "length (filter (\<lambda>n. data_names_habit n ''t3'')
               (fst (generate_at_risk_notifications example_env_evening ?W))) = 0"
    by (simp add: dt)
  from NW [THEN conjunct2, THEN conjunct1] w0
  have "is_habit example_habit_yesterday \<and> \<not> is_deleted example_habit_yesterday
        \<and> 0 < current_streak example_habit_yesterday
        \<and> (\<exists>d. last_checkin_date example_habit_yesterday = Some d
                \<and> d \<noteq> date_today example_env_next_day)
        \<longrightarrow> length (filter (\<lambda>n. data_names_habit n (task_card_id example_habit_yesterday))
                     (fst (generate_at_risk_notifications example_env_next_day ?W)))
              = (if (\<exists>n\<in>set (notifications ?W).
                       ntype n = ''habit_reminder''
                       \<and> date_of (notification_created_at n) = date_of (utc_now example_env_next_day)
                       \<and> data_names_habit n (task_card_id example_habit_yesterday)
                       \<and> data_at_risk n)
                 then 0 else 1)"
    by (rule bspec)
  with w1 w2 w4 have g4: "length (filter (\<lambda>n. data_names_habit n ''t3'')
               (fst (generate_at_risk_notifications example_env_next_day ?W))) = 1"
    by (simp add: dt)
  txt \<open>The daily-complete notification.\<close>
  note TD = dedup_window_is_utc_day [where e = example_env_evening and s = ?D]
  note AD = dedup_window_is_utc_day [where e = example_env_utc_ahead and s = ?D]
  have a0: "active_habits ?D = [example_habit_checked_in]"
    by (simp add: active_habits_def example_defs)
  have a1: "last_checkin_date example_habit_checked_in = Some 738886"
    by (simp add: example_defs)
  have a2: "active_habits ?D \<noteq> []
       \<and> (\<forall>habit\<in>set (active_habits ?D).
             last_checkin_date habit = Some (date_today example_env_evening))"
    "active_habits ?D \<noteq> []
       \<and> (\<forall>habit\<in>set (active_habits ?D).
             last_checkin_date habit = Some (date_today example_env_utc_ahead))"
    by (simp_all add: a0 a1 dt)
  have a3: "\<exists>n\<in>set (notifications ?D). ntype n = ''daily_complete''
              \<and> date_of (notification_created_at n) = date_of (utc_now example_env_evening)"
    by (simp add: example_defs time_defs)
  have a4: "\<not> (\<exists>n\<in>set (notifications ?D). ntype n = ''daily_complete''
              \<and> date_of (notification_created_at n) = date_of (utc_now example_env_utc_ahead))"
    by (simp add: example_defs time_defs)
  from TD a2(1) a3
  have g5: "\<not> (\<exists>n. fst (check_daily_complete example_env_evening ?D) = Inr (Some n))"
    by blast
  from AD a2(2) a4
  have g6: "\<exists>n. fst (check_daily_complete example_env_utc_ahead ?D) = Inr (Some n)"
    by blast
  txt \<open>The existence checks.\<close>
  from T b1 have c1: "check_existing_reminder example_env_evening ''t1'' 738887 ?R"
    by blast
  from T b2 have c2: "check_existing_at_risk example_env_evening ''t1'' 738887 ?R"
    by blast
  from T b3 have c3: "check_existing_daily_complete example_env_evening 738887 ?R \<noteq> Inr False"
    by blast
  from N b4 have c4: "\<not> check_existing_reminder example_env_next_day ''t1'' 738887 ?R"
    by blast
  from L d have c5: "check_existing_at_risk example_env_later ''t1'' 738887 ?R
        = check_existing_at_risk example_env ''t1'' 738886 ?R"
    by blast
  from l1 l2 l3 r0 r1 r2(1,3) g1 g2 w0 w1 w2(1,2) g3 g4 a0 a1 dt(3) l4 g5 g6 c1 c2 c3 c4 d c5
  show ?thesis by blast
qed

end
